theory Spec2Isabelle
  imports Main "HOL-Library.AList"
begin

section \<open>JavaScript values\<close>

text \<open>
  Function values are references: two function values are the same value exactly when
  they are the same function object. The functions the library itself defines are named;
  every function supplied by an application is \<open>UserFn n\<close>.
\<close>

datatype fnref =
    DefaultTemplate
  | DefaultData
  | OnLinkClick
  | OnModalCloseBtnClick
  | OnMenuItemSelect
  | UserFn nat

text \<open>
  The values a configuration can hold. Numbers are the integers; a plain object is the
  list of its own enumerable properties in insertion order. Functions and arrays carry no
  further named properties in this universe.
\<close>

datatype jsval =
    JUndefined
  | JNull
  | JBool bool
  | JNum int
  | JStr string
  | JFun fnref
  | JArr "jsval list"
  | JObj "(string \<times> jsval) list"

type_synonym obj = "(string \<times> jsval) list"

text \<open>JavaScript truthiness, as \<open>if (v)\<close>, \<open>!v\<close> and \<open>v || w\<close> read it.\<close>

fun truthy :: "jsval \<Rightarrow> bool" where
  "truthy JUndefined = False"
| "truthy JNull = False"
| "truthy (JBool b) = b"
| "truthy (JNum n) = (n \<noteq> 0)"
| "truthy (JStr s) = (s \<noteq> [])"
| "truthy (JFun f) = True"
| "truthy (JArr xs) = True"
| "truthy (JObj ps) = True"

text \<open>The lodash type tests the sources use.\<close>

fun isFunction :: "jsval \<Rightarrow> bool" where
  "isFunction (JFun f) = True"
| "isFunction v = False"

fun isString :: "jsval \<Rightarrow> bool" where
  "isString (JStr s) = True"
| "isString v = False"

fun isArray :: "jsval \<Rightarrow> bool" where
  "isArray (JArr xs) = True"
| "isArray v = False"

fun isUndefined :: "jsval \<Rightarrow> bool" where
  "isUndefined JUndefined = True"
| "isUndefined v = False"

fun isObject :: "jsval \<Rightarrow> bool" where
  "isObject (JFun f) = True"
| "isObject (JArr xs) = True"
| "isObject (JObj ps) = True"
| "isObject v = False"

text \<open>Reading a property of an object: \<open>undefined\<close> when the object has none of that name.\<close>

definition obj_get :: "obj \<Rightarrow> string \<Rightarrow> jsval" where
  "obj_get ps k = (case map_of ps k of None \<Rightarrow> JUndefined | Some v \<Rightarrow> v)"

fun get_prop :: "jsval \<Rightarrow> string \<Rightarrow> jsval" where
  "get_prop (JObj ps) k = obj_get ps k"
| "get_prop v k = JUndefined"

text \<open>
  \<open>String(v)\<close>, as \<open>setAttribute\<close>, a template literal and a property key read a value.
  The text of a function is not modelled: any function reads as \<open>function\<close>.
\<close>

definition digit :: "nat \<Rightarrow> char" where
  "digit n = ''0123456789'' ! n"

fun decimal :: "nat \<Rightarrow> string" where
  "decimal n =
     (if n < 10 then [digit n] else decimal (n div 10) @ [digit (n mod 10)])"

declare decimal.simps [simp del]

definition decimal_int :: "int \<Rightarrow> string" where
  "decimal_int i = (if i < 0 then CHR ''-'' # decimal (nat (- i)) else decimal (nat i))"

fun join_comma :: "string list \<Rightarrow> string" where
  "join_comma [] = []"
| "join_comma [s] = s"
| "join_comma (s # t # ss) = s @ '','' @ join_comma (t # ss)"

fun to_string :: "jsval \<Rightarrow> string" where
  "to_string JUndefined = ''undefined''"
| "to_string JNull = ''null''"
| "to_string (JBool b) = (if b then ''true'' else ''false'')"
| "to_string (JNum n) = decimal_int n"
| "to_string (JStr s) = s"
| "to_string (JFun f) = ''function''"
| "to_string (JArr xs) =
     join_comma (map (\<lambda>x. if x = JUndefined \<or> x = JNull then [] else to_string x) xs)"
| "to_string (JObj ps) = ''[object Object]''"

definition lower_char :: "char \<Rightarrow> char" where
  "lower_char c =
     (case map_of (zip ''ABCDEFGHIJKLMNOPQRSTUVWXYZ'' ''abcdefghijklmnopqrstuvwxyz'') c of
        None \<Rightarrow> c | Some d \<Rightarrow> d)"

definition toLowerCase :: "string \<Rightarrow> string" where
  "toLowerCase s = map lower_char s"

text \<open>
  Calling a function value with one argument. The two functions of the page defaults are
  the ones page.ts defines; what a function of the application returns is a parameter
  (\<open>user n\<close> for \<open>UserFn n\<close>). The three default handlers return nothing.
\<close>

type_synonym user_fns = "nat \<Rightarrow> jsval \<Rightarrow> jsval"

fun call_fn :: "user_fns \<Rightarrow> fnref \<Rightarrow> jsval \<Rightarrow> jsval" where
  "call_fn user DefaultTemplate x = JStr []"
| "call_fn user DefaultData x = x"
| "call_fn user (UserFn n) x = user n x"
| "call_fn user f x = JUndefined"

section \<open>Documents, listeners and promises\<close>

datatype jserror = SyntaxError | TypeError

text \<open>An event target of a document: the document itself or one of its elements.\<close>

datatype target = TDocument | TElement nat

text \<open>
  A registered listener is a function object. \<open>Direct f\<close> is the function \<open>f\<close> itself;
  \<open>Wrapper i f cfg\<close> is the arrow function \<open>(e) => f.call(cfg, e)\<close>, a new function
  object every time the expression is evaluated: \<open>i\<close> tells the objects apart.
\<close>

datatype listener = Direct fnref | Wrapper nat fnref obj

text \<open>
  A document as page.ts and handler.ts use it: what \<open>querySelectorAll\<close> answers (the
  matching elements, or the error it throws), whether it has a \<open>document\<close> element
  (the root of a TVML document), the markup of its head element when it has one, the
  listeners registered on its targets in registration order, the number of arrow functions
  created for it so far, and the \<open>page\<close> property \<open>makeDom\<close> sets.
\<close>

record document =
  doc_query :: "string \<Rightarrow> jserror + nat list"
  doc_root :: bool
  doc_head :: "string option"
  doc_listeners :: "(target \<times> string \<times> listener) list"
  doc_wrappers :: nat
  doc_page :: "obj option"

text \<open>What a page promise is fulfilled with: a document, or another value (\<open>null\<close>).\<close>

datatype pval = PDoc document | PVal jsval

fun truthy_p :: "pval \<Rightarrow> bool" where
  "truthy_p (PDoc d) = True"
| "truthy_p (PVal v) = truthy v"

datatype promise = Pending | Fulfilled pval | Rejected jsval

text \<open>What the modules do to their surroundings, in the order they do it.\<close>

datatype effect =
    Warn string
  | FeatureSetDocument pval nat
  | FeatureSetSelectedItem nat
  | DismissModal
  | InvokePage fnref

section \<open>page.ts: the page registry\<close>

text \<open>
  A page is the closure \<open>makePage(cfg)\<close> returns. It is a fresh function object at every
  call of \<open>makePage\<close> (\<open>page_id\<close>) that closes over the configuration (\<open>page_cfg\<close>).
  What the closure does when it is called is \<open>page_call\<close>, further down. The keys of the
  \<open>pages\<close> map are page names, which are strings or, for a page created without a name,
  \<open>undefined\<close>.
\<close>

record page =
  page_id :: nat
  page_cfg :: jsval

datatype page_warning =
    CreatingPageWithoutName
  | PageNameAlreadyExists jsval

text \<open>
  The module state of page.ts that \<open>create\<close> and \<open>get\<close> touch: the \<open>pages\<close> map
  (insertion ordered, keyed by the name), the closures allocated so far, and what was
  written with \<open>console.warn\<close>.
\<close>

record registry =
  pages :: "(jsval \<times> page) list"
  closures :: nat
  warned :: "page_warning list"

definition registry0 :: registry where
  "registry0 = \<lparr>pages = [], closures = 0, warned = []\<rparr>"

text \<open>\<open>_.assign(cfg, { name })\<close>: the property is written on a plain object.\<close>

fun assign_name :: "jsval \<Rightarrow> jsval \<Rightarrow> jsval" where
  "assign_name (JObj ps) n = JObj (AList.update ''name'' n ps)"
| "assign_name v n = v"

text \<open>The \<open>(name, cfg)\<close> pair \<open>create\<close> works with after its first \<open>if\<close>.\<close>

definition create_cfg :: "jsval \<Rightarrow> jsval \<Rightarrow> jsval" where
  "create_cfg name cfg = (if isObject name then name else cfg)"

definition create_name :: "jsval \<Rightarrow> jsval \<Rightarrow> jsval" where
  "create_name name cfg = (if isObject name then get_prop name ''name'' else name)"

definition makePage :: "registry \<Rightarrow> jsval \<Rightarrow> page \<times> registry" where
  "makePage r cfg = (\<lparr>page_id = closures r, page_cfg = cfg\<rparr>, r\<lparr>closures := Suc (closures r)\<rparr>)"

definition Page_create :: "registry \<Rightarrow> jsval \<Rightarrow> jsval \<Rightarrow> page \<times> registry" where
  "Page_create r name0 cfg0 =
     (let cfg1 = create_cfg name0 cfg0;
          name = create_name name0 cfg0;
          cfg = assign_name cfg1 name;
          r1 = (if \<not> truthy name \<or> \<not> isString name
                then r\<lparr>warned := warned r @ [CreatingPageWithoutName]\<rparr> else r);
          r2 = (if map_of (pages r1) name \<noteq> None
                then r1\<lparr>warned := warned r1 @ [PageNameAlreadyExists name]\<rparr> else r1);
          (p, r3) = makePage r2 cfg
      in (p, r3\<lparr>pages := AList.update name p (pages r3)\<rparr>))"

text \<open>\<open>get(name)\<close> is \<open>pages.get(name)\<close>: \<open>None\<close> stands for \<open>undefined\<close>.\<close>

definition Page_get :: "registry \<Rightarrow> jsval \<Rightarrow> page option" where
  "Page_get r name = map_of (pages r) name"

section \<open>menu.ts: the menu module\<close>

text \<open>
  A \<open>menuItem\<close> element: its node name, its attributes (\<open>setAttribute\<close> stores the
  string of the value), its markup, and the two properties the library hangs on the
  element, \<open>page\<close> and \<open>pageDoc\<close>.
\<close>

record menu_item =
  el_nodeName :: string
  el_attributes :: "(string \<times> string) list"
  el_innerHTML :: string
  el_page :: jsval
  el_pageDoc :: pval

definition getAttribute :: "(string \<times> string) list \<Rightarrow> string \<Rightarrow> jsval" where
  "getAttribute as name = (case map_of as name of None \<Rightarrow> JNull | Some s \<Rightarrow> JStr s)"

definition setAttribute :: "(string \<times> string) list \<Rightarrow> string \<Rightarrow> jsval \<Rightarrow> (string \<times> string) list" where
  "setAttribute as name v = AList.update name (to_string v) as"

text \<open>\<open>setAttributes(el, attributes)\<close>: \<open>_.each\<close> visits every own property once.\<close>

definition setAttributes :: "(string \<times> string) list \<Rightarrow> obj \<Rightarrow> (string \<times> string) list" where
  "setAttributes as attrs = fold (\<lambda>(name, v) acc. setAttribute acc name v) (AList.clearjunk attrs) as"

text \<open>The interfaces \<open>Item\<close> and \<open>Options\<close>, and \<open>Partial<Options>\<close>.\<close>

record item =
  item_id :: string
  item_attributes :: obj
  item_name :: jsval
  item_page :: jsval

record menu_options =
  attributes :: obj
  rootTemplateAttributes :: obj
  items :: "item list"
  loadingMessage :: jsval
  errorMessage :: jsval

record menu_cfg =
  cfg_attributes :: "obj option"
  cfg_rootTemplateAttributes :: "obj option"
  cfg_items :: "item list option"
  cfg_loadingMessage :: "jsval option"
  cfg_errorMessage :: "jsval option"

text \<open>
  The module state: the \<open>created\<close> flag, the \<open>defaults\<close>, the attributes of the
  \<open>menuBar\<close> and \<open>menuBarTemplate\<close> elements of the one menu document \<open>doc\<close>, the
  \<open>menuItem\<close> children of the \<open>menuBar\<close> in document order, and \<open>itemsCache\<close>, which
  maps an id to the position of its element among those children.
\<close>

record menu =
  created :: bool
  defaults :: menu_options
  menuBarEl :: "(string \<times> string) list"
  menuBarTpl :: "(string \<times> string) list"
  menuItems :: "menu_item list"
  itemsCache :: "(string \<times> nat) list"

definition menu0 :: menu where
  "menu0 = \<lparr>created = False,
      defaults = \<lparr>attributes = [], rootTemplateAttributes = [], items = [],
                    loadingMessage = JStr [], errorMessage = JStr []\<rparr>,
      menuBarEl = [], menuBarTpl = [], menuItems = [], itemsCache = []\<rparr>"

text \<open>\<open>_.assign(defaults, cfg)\<close>: every property \<open>cfg\<close> has overwrites the default.\<close>

definition assign_options :: "menu_options \<Rightarrow> menu_cfg \<Rightarrow> menu_options" where
  "assign_options d cfg =
     \<lparr>attributes = (case cfg_attributes cfg of None \<Rightarrow> attributes d | Some v \<Rightarrow> v),
      rootTemplateAttributes =
        (case cfg_rootTemplateAttributes cfg of None \<Rightarrow> rootTemplateAttributes d | Some v \<Rightarrow> v),
      items = (case cfg_items cfg of None \<Rightarrow> items d | Some v \<Rightarrow> v),
      loadingMessage = (case cfg_loadingMessage cfg of None \<Rightarrow> loadingMessage d | Some v \<Rightarrow> v),
      errorMessage = (case cfg_errorMessage cfg of None \<Rightarrow> errorMessage d | Some v \<Rightarrow> v)\<rparr>"


text \<open>
  \<open>addItem(item)\<close>. The item's \<open>attributes\<close> are replaced by the merged ones, so the
  item is returned too.
\<close>

definition addItem :: "user_fns \<Rightarrow> menu \<Rightarrow> item \<Rightarrow> item \<times> effect list \<times> menu" where
  "addItem user m it =
     (if item_id it = [] then
        (it, [Warn ''Cannot add menuitem. A unique identifier is required for the menuitem to work correctly.''], m)
      else
        let attrs = AList.update ''id'' (JStr (item_id it)) (AList.clearjunk (item_attributes it));
            name = (case item_name it of JFun f \<Rightarrow> call_fn user f JUndefined | v \<Rightarrow> v);
            el = \<lparr>el_nodeName = ''menuItem'',
                  el_attributes = setAttributes [] attrs,
                  el_innerHTML = ''<title>'' @ to_string name @ ''</title>'',
                  el_page = item_page it,
                  el_pageDoc = PVal JUndefined\<rparr>
        in (it\<lparr>item_attributes := attrs\<rparr>, [],
            m\<lparr>menuItems := menuItems m @ [el],
              itemsCache := AList.update (item_id it) (length (menuItems m)) (itemsCache m)\<rparr>))"

fun addItems :: "user_fns \<Rightarrow> menu \<Rightarrow> item list \<Rightarrow> item list \<times> effect list \<times> menu" where
  "addItems user m [] = ([], [], m)"
| "addItems user m (it # its) =
     (let (it', es, m') = addItem user m it;
          (its', es', m'') = addItems user m' its
      in (it' # its', es @ es', m''))"

text \<open>What a call of the module returns: nothing, the menu document \<open>doc\<close>, or a value.\<close>

datatype menu_ret = RetUndefined | RetMenuDoc | RetVal jsval

definition Menu_create :: "user_fns \<Rightarrow> menu \<Rightarrow> menu_cfg \<Rightarrow> menu_ret \<times> effect list \<times> menu" where
  "Menu_create user m cfg =
     (if created m then
        (RetUndefined, [Warn ''An instance of menu already exists, skipping creation...''], m)
      else
        let d = assign_options (defaults m) cfg;
            m1 = m\<lparr>defaults := d\<rparr>;
            m2 = m1\<lparr>menuBarEl := setAttributes (menuBarEl m1) (attributes d)\<rparr>;
            m3 = m2\<lparr>menuBarTpl := setAttributes (menuBarTpl m2) (rootTemplateAttributes d)\<rparr>;
            (its, es, m4) = addItems user m3 (items d);
            m5 = m4\<lparr>defaults := (defaults m4)\<lparr>items := its\<rparr>\<rparr>
        in (RetMenuDoc, es, m5\<lparr>created := True\<rparr>))"

text \<open>\<open>get()\<close> creates the menu with the empty configuration when it is not created.\<close>

definition empty_cfg :: menu_cfg where
  "empty_cfg = \<lparr>cfg_attributes = None, cfg_rootTemplateAttributes = None, cfg_items = None,
                 cfg_loadingMessage = None, cfg_errorMessage = None\<rparr>"


text \<open>
  \<open>setDocument(doc, menuItemid)\<close> and \<open>setSelectedItem(menuItemid)\<close> look the id up in
  \<open>itemsCache\<close> and hand the element to the \<open>MenuBarDocument\<close> feature of the host.
  They leave the module state as it is.
\<close>

definition Menu_setDocument :: "menu \<Rightarrow> pval \<Rightarrow> jsval \<Rightarrow> effect list" where
  "Menu_setDocument m doc menuItemid =
     (case map_of (itemsCache m) (to_string menuItemid) of
        None \<Rightarrow> [Warn (''Cannot set document to the menuitem. The given id '' @ to_string menuItemid @ '' does not exist.'')]
      | Some i \<Rightarrow> [FeatureSetDocument doc i])"


definition getLoadingMessage :: "user_fns \<Rightarrow> menu \<Rightarrow> jsval" where
  "getLoadingMessage user m =
     (case loadingMessage (defaults m) of JFun f \<Rightarrow> call_fn user f JUndefined | v \<Rightarrow> v)"





section \<open>handler.ts: the menu item handler\<close>

definition menuItemReloadAttribute :: string where
  "menuItemReloadAttribute = ''reloadOnSelect''"

text \<open>
  The two callbacks \<open>onMenuItemSelect\<close> passes to \<open>page().then\<close>. The navigation
  module is not among the sources: \<open>Navigation.getErrorDoc\<close> is a parameter, and
  \<open>Navigation.dismissModal()\<close> is the effect \<open>DismissModal\<close>.
\<close>

definition page_fulfilled :: "menu \<Rightarrow> jsval \<Rightarrow> menu_item \<Rightarrow> pval \<Rightarrow> effect list \<times> menu_item" where
  "page_fulfilled m menuId el doc =
     (if truthy_p doc
      then (Menu_setDocument m doc menuId @ [DismissModal], el\<lparr>el_pageDoc := doc\<rparr>)
      else ([DismissModal], el))"

definition page_rejected ::
  "(jsval \<Rightarrow> document) \<Rightarrow> menu \<Rightarrow> jsval \<Rightarrow> menu_item \<Rightarrow> jsval \<Rightarrow> effect list \<times> menu_item" where
  "page_rejected getErrorDoc m menuId el error =
     (Menu_setDocument m (PDoc (getErrorDoc error)) menuId @ [DismissModal], el)"

text \<open>
  \<open>onMenuItemSelect(e)\<close> for the event target \<open>el\<close>. \<open>settle f k\<close> is what the promise
  returned by call number \<open>k\<close> of the page function \<open>f\<close> settles to (\<open>Pending\<close>: it
  never settles); the callbacks run when it does. Calling a \<open>page\<close> that is no function
  throws. The result is the error thrown if any, the effects in order, and the element.
\<close>

definition onMenuItemSelect ::
  "user_fns \<Rightarrow> (jsval \<Rightarrow> document) \<Rightarrow> (jsval \<Rightarrow> document) \<Rightarrow> (fnref \<Rightarrow> nat \<Rightarrow> promise)
     \<Rightarrow> menu \<Rightarrow> nat \<Rightarrow> menu_item \<Rightarrow> jserror option \<times> effect list \<times> menu_item" where
  "onMenuItemSelect user getLoaderDoc getErrorDoc settle m k el =
     (let menuId = getAttribute (el_attributes el) ''id'';
          elementType = toLowerCase (el_nodeName el);
          page = el_page el
      in if elementType = ''menuitem'' then
           if (\<not> truthy_p (el_pageDoc el)
                 \<or> truthy (getAttribute (el_attributes el) menuItemReloadAttribute))
              \<and> truthy page
           then
             let loading = Menu_setDocument m (PDoc (getLoaderDoc (getLoadingMessage user m))) menuId
             in (case page of
                   JFun f \<Rightarrow>
                     (case settle f k of
                        Pending \<Rightarrow> (None, loading @ [InvokePage f], el)
                      | Fulfilled doc \<Rightarrow>
                          (let (es, el') = page_fulfilled m menuId el doc
                           in (None, loading @ [InvokePage f] @ es, el'))
                      | Rejected error \<Rightarrow>
                          (let (es, el') = page_rejected getErrorDoc m menuId el error
                           in (None, loading @ [InvokePage f] @ es, el')))
                 | _ \<Rightarrow> (Some TypeError, loading, el))
           else (None, [], el)
         else (None, [], el))"

text \<open>The page invocations among some effects.\<close>

fun invocations :: "effect list \<Rightarrow> fnref list" where
  "invocations [] = []"
| "invocations (InvokePage f # es) = f # invocations es"
| "invocations (e # es) = invocations es"

text \<open>
  What happens to one menu item over time: it is selected, or the application sets or
  removes one of its attributes. The run keeps the element and every effect so far; a
  page invocation is numbered by the invocations before it.
\<close>

datatype item_event = Select | SetAttr string string | RemoveAttr string

fun item_events ::
  "user_fns \<Rightarrow> (jsval \<Rightarrow> document) \<Rightarrow> (jsval \<Rightarrow> document) \<Rightarrow> (fnref \<Rightarrow> nat \<Rightarrow> promise)
     \<Rightarrow> menu \<Rightarrow> item_event list \<Rightarrow> menu_item \<times> effect list \<Rightarrow> menu_item \<times> effect list" where
  "item_events user ld ed settle m [] s = s"
| "item_events user ld ed settle m (Select # evs) (el, tr) =
     (let (r, es, el') = onMenuItemSelect user ld ed settle m (length (invocations tr)) el
      in item_events user ld ed settle m evs (el', tr @ es))"
| "item_events user ld ed settle m (SetAttr name v # evs) (el, tr) =
     item_events user ld ed settle m evs
       (el\<lparr>el_attributes := AList.update name v (el_attributes el)\<rparr>, tr)"
| "item_events user ld ed settle m (RemoveAttr name # evs) (el, tr) =
     item_events user ld ed settle m evs
       (el\<lparr>el_attributes := AList.delete name (el_attributes el)\<rparr>, tr)"

section \<open>handler.ts: binding the events of a configuration\<close>

text \<open>
  The host's \<open>addEventListener\<close> and \<open>removeEventListener\<close> on a target of a document:
  a listener is registered once per target and event name, and is found again by being the
  same function object.
\<close>

definition addEventListener :: "document \<Rightarrow> target \<Rightarrow> string \<Rightarrow> listener \<Rightarrow> document" where
  "addEventListener d t ev l =
     (if (t, ev, l) \<in> set (doc_listeners d) then d
      else d\<lparr>doc_listeners := doc_listeners d @ [(t, ev, l)]\<rparr>)"

definition removeEventListener :: "document \<Rightarrow> target \<Rightarrow> string \<Rightarrow> listener \<Rightarrow> document" where
  "removeEventListener d t ev l = d\<lparr>doc_listeners := removeAll (t, ev, l) (doc_listeners d)\<rparr>"

text \<open>
  Dispatching an event at a target calls the listeners registered on that target for the
  event name, in registration order (propagation to other targets is not modelled). A
  firing names the function that runs and, for the arrow function of \<open>setListeners\<close>, the
  configuration it runs with as its receiver.
\<close>

datatype firing = Fired fnref "obj option"

fun fire :: "listener \<Rightarrow> firing" where
  "fire (Direct f) = Fired f None"
| "fire (Wrapper i f cfg) = Fired f (Some cfg)"

definition dispatch :: "document \<Rightarrow> target \<Rightarrow> string \<Rightarrow> firing list" where
  "dispatch d t ev =
     map (\<lambda>(t', ev', l). fire l) (filter (\<lambda>(t', ev', l). t' = t \<and> ev' = ev) (doc_listeners d))"

text \<open>\<open>e.split(" ")\<close> and \<open>e.substring(e.indexOf(" ") + 1)\<close>.\<close>

fun split_on :: "char \<Rightarrow> string \<Rightarrow> string list" where
  "split_on c [] = [[]]"
| "split_on c (x # xs) =
     (if x = c then [] # split_on c xs
      else (case split_on c xs of [] \<Rightarrow> [[x]] | p # ps \<Rightarrow> (x # p) # ps))"

definition after_first_space :: "string \<Rightarrow> string" where
  "after_first_space e = drop 1 (dropWhile (\<lambda>c. c \<noteq> CHR '' '') e)"

text \<open>
  \<open>_.attempt(f)\<close> runs \<open>f\<close> and returns its result, or the error object \<open>f\<close> throws;
  \<open>_.isError\<close> tells the two apart.
\<close>

datatype 'a attempted = ErrorObject jserror | Result 'a

fun attempt :: "jserror + 'a \<Rightarrow> 'a attempted" where
  "attempt (Inl err) = ErrorObject err"
| "attempt (Inr v) = Result v"

fun isError :: "'a attempted \<Rightarrow> bool" where
  "isError (ErrorObject err) = True"
| "isError (Result v) = False"

text \<open>
  The innermost loop of \<open>setListeners\<close>: for one target a new arrow function is created
  and passed to \<open>listenerFn\<close>.
\<close>

definition bind_target :: "bool \<Rightarrow> string \<Rightarrow> fnref \<Rightarrow> obj \<Rightarrow> document \<Rightarrow> target \<Rightarrow> document" where
  "bind_target add ev f cfg d t =
     (let w = Wrapper (doc_wrappers d) f cfg;
          d' = d\<lparr>doc_wrappers := Suc (doc_wrappers d)\<rparr>
      in if add then addEventListener d' t ev w else removeEventListener d' t ev w)"

text \<open>
  One handler reference: a string is looked up on the configuration, and what is not a
  function after that is skipped.
\<close>

definition bind_fn :: "bool \<Rightarrow> string \<Rightarrow> target list \<Rightarrow> obj \<Rightarrow> document \<Rightarrow> jsval \<Rightarrow> document" where
  "bind_fn add ev elements cfg d fn0 =
     (let fn = (case fn0 of JStr name \<Rightarrow> obj_get cfg name | v \<Rightarrow> v)
      in case fn of
           JFun f \<Rightarrow> fold (\<lambda>t d. bind_target add ev f cfg d t) elements d
         | _ \<Rightarrow> d)"

text \<open>The targets of a descriptor: the elements the selector matches, or the document.\<close>

definition descriptor_event :: "string \<Rightarrow> string" where
  "descriptor_event e = hd (split_on CHR '' '' e)"

definition descriptor_selector :: "string \<Rightarrow> string" where
  "descriptor_selector e =
     (case split_on CHR '' '' e of ev # s # rest \<Rightarrow> s | _ \<Rightarrow> [])"

definition descriptor_targets :: "document \<Rightarrow> string \<Rightarrow> target list" where
  "descriptor_targets d e =
     (if descriptor_selector e \<noteq> [] then
        (let elements = attempt (doc_query d (after_first_space e))
         in case elements of ErrorObject err \<Rightarrow> [] | Result els \<Rightarrow> map TElement els)
      else [TDocument])"

text \<open>The body of the outer \<open>_.each(events, (fns, e) => ...)\<close>.\<close>

definition bind_entry :: "bool \<Rightarrow> obj \<Rightarrow> document \<Rightarrow> string \<times> jsval \<Rightarrow> document" where
  "bind_entry add cfg d entry =
     (let e = fst entry;
          fns = (case snd entry of JArr xs \<Rightarrow> xs | v \<Rightarrow> [v]);
          elements = descriptor_targets d e
      in fold (\<lambda>fn d. bind_fn add (descriptor_event e) elements cfg d fn) fns d)"

text \<open>
  \<open>setListeners(doc, cfg, add)\<close>. \<open>None\<close> is a \<open>doc\<close> that is null or no Document. The type
  \<open>Config\<close> makes \<open>events\<close> an object keyed by descriptors; a function passes
  \<open>_.isObject\<close> too and has no property to visit.
\<close>

definition setListeners :: "document option \<Rightarrow> obj \<Rightarrow> bool \<Rightarrow> document option" where
  "setListeners doc cfg add =
     (case doc of
        None \<Rightarrow> None
      | Some d \<Rightarrow>
          (case obj_get cfg ''events'' of
             JObj events \<Rightarrow> Some (fold (\<lambda>entry d. bind_entry add cfg d entry) (AList.clearjunk events) d)
           | _ \<Rightarrow> Some d))"

definition addListeners :: "document option \<Rightarrow> obj \<Rightarrow> document option" where
  "addListeners doc cfg = setListeners doc cfg True"

definition removeListeners :: "document option \<Rightarrow> obj \<Rightarrow> document option" where
  "removeListeners doc cfg = setListeners doc cfg False"

text \<open>
  The default handlers: the table \<open>handlers\<close> (event name, then the callbacks in order),
  which \<open>setDefaultHandlers\<close> registers on the document itself, each callback as it is.
\<close>

definition handlers :: "(string \<times> fnref list) list" where
  "handlers = [(''select'', [OnLinkClick, OnModalCloseBtnClick, OnMenuItemSelect])]"

definition setDefaultHandlers :: "(string \<times> fnref list) list \<Rightarrow> document option \<Rightarrow> bool \<Rightarrow> document option" where
  "setDefaultHandlers hs doc add =
     (case doc of
        None \<Rightarrow> None
      | Some d \<Rightarrow>
          Some (fold (\<lambda>(name, handler) d.
                  fold (\<lambda>callback d.
                     if add then addEventListener d TDocument name (Direct callback)
                     else removeEventListener d TDocument name (Direct callback)) handler d)
                hs d))"

definition addDefaultHandlers :: "(string \<times> fnref list) list \<Rightarrow> document option \<Rightarrow> document option" where
  "addDefaultHandlers hs doc = setDefaultHandlers hs doc True"

definition removeDefaultHandlers :: "(string \<times> fnref list) list \<Rightarrow> document option \<Rightarrow> document option" where
  "removeDefaultHandlers hs doc = setDefaultHandlers hs doc False"

text \<open>\<open>setHandlers\<close>: the default handlers first, then those of the configuration.\<close>

definition setHandlers :: "(string \<times> fnref list) list \<Rightarrow> document option \<Rightarrow> obj \<Rightarrow> bool \<Rightarrow> document option" where
  "setHandlers hs doc cfg add =
     (if add then addListeners (addDefaultHandlers hs doc) cfg
      else removeListeners (removeDefaultHandlers hs doc) cfg)"

definition addHandlers :: "(string \<times> fnref list) list \<Rightarrow> document option \<Rightarrow> obj \<Rightarrow> document option" where
  "addHandlers hs doc cfg = setHandlers hs doc cfg True"

definition removeHandlers :: "(string \<times> fnref list) list \<Rightarrow> document option \<Rightarrow> obj \<Rightarrow> document option" where
  "removeHandlers hs doc cfg = setHandlers hs doc cfg False"

text \<open>Dispatching on the result of \<open>addListeners\<close> or \<open>removeListeners\<close>.\<close>

definition dispatch_on :: "document option \<Rightarrow> target \<Rightarrow> string \<Rightarrow> firing list" where
  "dispatch_on doc t ev = (case doc of None \<Rightarrow> [] | Some d \<Rightarrow> dispatch d t ev)"

text \<open>
  Every arrow function registered on the document was created for it earlier: its number
  is below the number of arrow functions created so far.
\<close>

definition fresh_wrappers :: "document \<Rightarrow> bool" where
  "fresh_wrappers d =
     list_all (\<lambda>(t, ev, l). case l of Direct f \<Rightarrow> True | Wrapper i f cfg \<Rightarrow> i < doc_wrappers d)
       (doc_listeners d)"

section \<open>page.ts: the defaults and their merge\<close>

text \<open>
  \<open>_.defaultsDeep(object, source)\<close> of lodash, which is \<open>mergeWith\<close> with the customizer
  \<open>customDefaultsMerge\<close>, on the values of this universe. \<open>merge_props\<close> is \<open>baseMerge\<close>
  for two plain objects: it visits the properties of the source in order.
  \<open>merge_value objValue srcValue\<close> is the value the destination holds for one key
  afterwards: an undefined destination takes (a copy of) the source value, two plain
  objects are merged key by key and two arrays index by index, and any other defined
  destination value stays. A function has no enumerable property, so merging one into
  anything changes nothing. Where destination and source are objects of different kinds
  otherwise (a plain object, an array, a function), lodash copies the keys of the source
  onto the destination object. That case is not modelled: the destination is left as it
  is. It does not arise with the defaults of page.ts and a configuration whose
  \<open>options\<close> is a plain object.
  \<open>assignMergeValue\<close> writes the key unless the value is the one already there.
\<close>

definition assignMergeValue :: "obj \<Rightarrow> string \<Rightarrow> jsval \<Rightarrow> obj" where
  "assignMergeValue object key v =
     (if (v \<noteq> JUndefined \<and> obj_get object key \<noteq> v) \<or> (v = JUndefined \<and> map_of object key = None)
      then AList.update key v object else object)"

fun merge_value :: "jsval \<Rightarrow> jsval \<Rightarrow> jsval"
  and merge_props :: "obj \<Rightarrow> obj \<Rightarrow> obj"
  and merge_elems :: "jsval list \<Rightarrow> jsval list \<Rightarrow> jsval list" where
  "merge_value objValue JUndefined = objValue"
| "merge_value objValue JNull = (if objValue = JUndefined then JNull else objValue)"
| "merge_value objValue (JBool b) = (if objValue = JUndefined then JBool b else objValue)"
| "merge_value objValue (JNum n) = (if objValue = JUndefined then JNum n else objValue)"
| "merge_value objValue (JStr s) = (if objValue = JUndefined then JStr s else objValue)"
| "merge_value objValue (JFun f) = (if objValue = JUndefined then JFun f else objValue)"
| "merge_value objValue (JArr ys) =
     (case objValue of
        JUndefined \<Rightarrow> JArr (merge_elems [] ys)
      | JArr xs \<Rightarrow> JArr (merge_elems xs ys)
      | v \<Rightarrow> v)"
| "merge_value objValue (JObj qs) =
     (case objValue of
        JUndefined \<Rightarrow> JObj (merge_props [] qs)
      | JObj ps \<Rightarrow> JObj (merge_props ps qs)
      | v \<Rightarrow> v)"
| "merge_props ps [] = ps"
| "merge_props ps (q # qs) =
     merge_props (assignMergeValue ps (fst q) (merge_value (obj_get ps (fst q)) (snd q))) qs"
| "merge_elems xs [] = xs"
| "merge_elems xs (y # ys) =
     (case xs of
        [] \<Rightarrow> merge_value JUndefined y # merge_elems [] ys
      | x # xs' \<Rightarrow> merge_value x y # merge_elems xs' ys)"

text \<open>\<open>_.defaultsDeep(cfg, defaults)\<close>: \<open>cfg\<close> is changed in place, the result is its new value.\<close>

definition defaultsDeep :: "obj \<Rightarrow> obj \<Rightarrow> obj" where
  "defaultsDeep object source = merge_props object source"

text \<open>The constant \<open>defaults\<close> of page.ts, as the module is loaded.\<close>

definition page_defaults :: obj where
  "page_defaults =
     [(''style'', JStr []),
      (''template'', JFun DefaultTemplate),
      (''data'', JFun DefaultData),
      (''options'', JObj [(''responseType'', JStr ''json'')])]"

text \<open>
  A value is well formed when no object in it lists a key twice: every JavaScript
  object is.
\<close>

fun wf_value :: "jsval \<Rightarrow> bool"
  and wf_props :: "obj \<Rightarrow> bool"
  and wf_elems :: "jsval list \<Rightarrow> bool" where
  "wf_value (JObj ps) = wf_props ps"
| "wf_value (JArr xs) = wf_elems xs"
| "wf_value v = True"
| "wf_props [] = True"
| "wf_props (p # ps) = (fst p \<notin> fst ` set ps \<and> wf_value (snd p) \<and> wf_props ps)"
| "wf_elems [] = True"
| "wf_elems (x # xs) = (wf_value x \<and> wf_elems xs)"

text \<open>
  The value at a path of keys and indices, and the values that are neither undefined
  nor containers: null, booleans, numbers, strings and functions.
\<close>

datatype step = Key string | Index nat

fun at_path :: "jsval \<Rightarrow> step list \<Rightarrow> jsval" where
  "at_path v [] = v"
| "at_path (JObj ps) (Key k # p) = at_path (obj_get ps k) p"
| "at_path (JArr xs) (Index i # p) = (if i < length xs then at_path (xs ! i) p else JUndefined)"
| "at_path v (st # p) = JUndefined"

fun defined_leaf :: "jsval \<Rightarrow> bool" where
  "defined_leaf JUndefined = False"
| "defined_leaf (JObj ps) = False"
| "defined_leaf (JArr xs) = False"
| "defined_leaf v = True"

text \<open>\<open>_.assign(object, source)\<close> and \<open>_.defaults(object, source)\<close> for plain objects.\<close>

definition assign :: "obj \<Rightarrow> obj \<Rightarrow> obj" where
  "assign object source = fold (\<lambda>(k, v) ps. AList.update k v ps) (AList.clearjunk source) object"

definition lodash_defaults :: "obj \<Rightarrow> obj \<Rightarrow> obj" where
  "lodash_defaults object source =
     fold (\<lambda>(k, v) ps. if obj_get ps k = JUndefined then AList.update k v ps else ps)
       (AList.clearjunk source) object"

definition Page_setOptions :: "obj \<Rightarrow> obj \<Rightarrow> obj" where
  "Page_setOptions defs cfg = assign defs cfg"

section \<open>ajax.ts: the transport\<close>

text \<open>
  What the host's \<open>XMLHttpRequest\<close> does with a request, given the method, the url and
  the options: nothing ever (\<open>None\<close>), or the callback it runs first, with the status and
  the response the request object then holds.
\<close>

datatype xhr_signal = ReadyState4 | ErrorEvent | AbortEvent

type_synonym xhr_host = "jsval \<Rightarrow> jsval \<Rightarrow> obj \<Rightarrow> (xhr_signal \<times> int \<times> jsval) option"

definition ajax_defaults :: obj where
  "ajax_defaults = [(''responseType'', JStr ''json'')]"

fun typeof_object :: "jsval \<Rightarrow> bool" where
  "typeof_object JNull = True"
| "typeof_object (JArr xs) = True"
| "typeof_object (JObj ps) = True"
| "typeof_object v = False"

text \<open>The request object, as far as page.ts reads it.\<close>

definition xhr_object :: "int \<Rightarrow> jsval \<Rightarrow> jsval" where
  "xhr_object status response = JObj [(''status'', JNum status), (''response'', response)]"

text \<open>The executor of the promise \<open>ajax\<close> returns.\<close>

definition ajax_request :: "xhr_host \<Rightarrow> jsval \<Rightarrow> jsval \<Rightarrow> jsval \<Rightarrow> promise" where
  "ajax_request send url options0 method0 =
     (let options = assign (assign [] ajax_defaults) (case options0 of JObj ps \<Rightarrow> ps | _ \<Rightarrow> []);
          method = (if truthy (obj_get options ''method'') then obj_get options ''method'' else method0)
      in case send method url options of
           None \<Rightarrow> Pending
         | Some (ReadyState4, status, response) \<Rightarrow>
             (if 200 \<le> status \<and> status \<le> 300 then Fulfilled (PVal (xhr_object status response))
              else Rejected (xhr_object status response))
         | Some (ErrorEvent, status, response) \<Rightarrow> Rejected (xhr_object status response)
         | Some (AbortEvent, status, response) \<Rightarrow> Rejected (xhr_object status response))"

definition ajax_type_error :: jsval where
  "ajax_type_error =
     JObj [(''name'', JStr ''TypeError''),
           (''message'', JStr ''Options must be an object for making the ajax request.'')]"

text \<open>
  \<open>ajax(url, options, method)\<close>. A \<open>url\<close> that is \<open>null\<close> with no options makes the
  source throw while it reads \<open>url.url\<close>; page.ts calls \<open>Ajax.get\<close> with a truthy
  \<open>url\<close> only, and that call is read here as the rejection of the next branch.
\<close>

definition ajax :: "xhr_host \<Rightarrow> jsval \<Rightarrow> jsval \<Rightarrow> jsval \<Rightarrow> promise" where
  "ajax send url options method =
     (if options = JUndefined \<and> typeof_object url \<and> truthy (get_prop url ''url'')
      then ajax_request send (get_prop url ''url'') url method
      else if \<not> isString url then Rejected ajax_type_error
      else ajax_request send url options method)"

definition Ajax_get :: "xhr_host \<Rightarrow> jsval \<Rightarrow> jsval \<Rightarrow> promise" where
  "Ajax_get send url options = ajax send url options (JStr ''GET'')"

section \<open>page.ts: building a document\<close>

text \<open>
  What \<open>ready(options, resolve, reject)\<close> does with its two continuations: the calls it
  makes, in the order it makes them. The \<open>resolve\<close> continuation builds the document
  before it settles the promise, and building can throw; where the exception goes depends
  on where the call is made. \<open>InReady\<close>: while \<open>ready\<close> runs, outside any \<open>try\<close>, so
  that the exception leaves \<open>ready\<close> and then the executor of the promise. \<open>Later\<close>:
  from a callback that runs after \<open>ready\<close> has returned, or inside a \<open>try\<close>, so that
  the exception does not reach the executor.
\<close>

datatype call_site = InReady | Later

datatype continuation = Resolve call_site jsval | Reject jsval

text \<open>
  The value a rejected promise carries for an error the engine throws: an Error object of
  that name. Its message is the engine's own and is left out.
\<close>

definition thrown :: "jserror \<Rightarrow> jsval" where
  "thrown e =
     JObj [(''name'', JStr (case e of SyntaxError \<Rightarrow> ''SyntaxError'' | TypeError \<Rightarrow> ''TypeError''))]"

text \<open>
  The surroundings of a page: the parser (\<open>Parser.dom\<close>, not among the sources, gives the
  document for a template and its data), what the functions of the application return,
  what a function used as \<open>ready\<close> does with its continuations, and the host's requests.
  The functions of the application return normally unless a continuation they call throws.
\<close>

record page_host =
  Parser_dom :: "jsval \<Rightarrow> jsval \<Rightarrow> document"
  user_call :: user_fns
  ready_calls :: "nat \<Rightarrow> jsval \<Rightarrow> continuation list"
  xhr_send :: xhr_host

text \<open>The calls a page makes to the functions of its configuration and to the transport.\<close>

datatype page_event =
    CallReady fnref jsval
  | CallAfterReady fnref document
  | CallOnError fnref jsval jsval
  | AjaxGet jsval jsval

text \<open>
  \<open>appendStyle(style, doc)\<close>: a style that is no string is logged and the document left
  alone. Otherwise the head element gets the style. A document with no head gets a new
  one, inserted into its \<open>document\<close> element; when it has no such element either,
  \<open>docEl\<close> is \<open>null\<close> and \<open>docEl.insertBefore(headTag, docEl.firstChild)\<close> throws.
\<close>

definition appendStyle :: "jsval \<Rightarrow> document \<Rightarrow> jserror + document" where
  "appendStyle style doc =
     (case style of
        JStr s \<Rightarrow>
          (if doc_head doc = None \<and> \<not> doc_root doc then Inl TypeError
           else Inr (doc\<lparr>doc_head := Some (''<style>'' @ s @ ''</style>'')\<rparr>))
      | _ \<Rightarrow> Inr doc)"

text \<open>
  \<open>prepareDom(doc, cfg)\<close>; \<open>None\<close> is a \<open>doc\<close> that is no Document. The configuration is
  changed in place by \<open>_.defaults\<close>, so it is returned too, also when \<open>appendStyle\<close>
  throws: then no handler is added.
\<close>

definition prepareDom ::
  "(string \<times> fnref list) list \<Rightarrow> obj \<Rightarrow> document option \<Rightarrow> obj
     \<Rightarrow> (jserror + document option) \<times> obj" where
  "prepareDom hs defs doc cfg0 =
     (case doc of
        None \<Rightarrow> (Inr None, cfg0)
      | Some d \<Rightarrow>
          (let cfg = lodash_defaults cfg0 defs
           in case appendStyle (obj_get cfg ''style'') d of
                Inl err \<Rightarrow> (Inl err, cfg)
              | Inr d1 \<Rightarrow> (Inr (addHandlers hs (Some d1) cfg), cfg)))"

text \<open>
  \<open>makeDom(cfg, response)\<close>, with \<open>[]\<close> for a \<open>response\<close> that is undefined. The result is
  the document, or the error thrown on the way, the configuration and the calls made. An
  error of \<open>prepareDom\<close> is not caught: \<open>afterReady\<close> is not called and no document is
  returned. What \<open>afterReady\<close> does to the document is its own business: the call is
  recorded.
\<close>

definition makeDom ::
  "page_host \<Rightarrow> (string \<times> fnref list) list \<Rightarrow> obj \<Rightarrow> obj \<Rightarrow> jsval
     \<Rightarrow> (jserror + document) \<times> obj \<times> page_event list" where
  "makeDom h hs defs cfg0 response0 =
     (let response = (if response0 = JUndefined then JArr [] else response0);
          cfg1 = lodash_defaults cfg0 defs;
          data = (case obj_get cfg1 ''data'' of JFun f \<Rightarrow> call_fn (user_call h) f response | v \<Rightarrow> v);
          parsed = Parser_dom h (obj_get cfg1 ''template'') data;
          (prepared, cfg) = prepareDom hs defs (Some parsed) cfg1
      in case prepared of
           Inl err \<Rightarrow> (Inl err, cfg, [])
         | Inr pd \<Rightarrow>
             (let doc = (case pd of None \<Rightarrow> parsed | Some d \<Rightarrow> d);
                  calls = (case obj_get cfg ''afterReady'' of JFun f \<Rightarrow> [CallAfterReady f doc] | _ \<Rightarrow> [])
              in (Inr (doc\<lparr>doc_page := Some cfg\<rparr>), cfg, calls)))"

section \<open>page.ts: the page function\<close>

text \<open>\<open>resolve\<close> and \<open>reject\<close> of a promise settle it once.\<close>

fun settle_once :: "promise \<Rightarrow> promise \<Rightarrow> promise" where
  "settle_once Pending p = p"
| "settle_once q p = q"

text \<open>What a function does when it is called as \<open>ready\<close>.\<close>

fun ready_of :: "page_host \<Rightarrow> fnref \<Rightarrow> jsval \<Rightarrow> continuation list" where
  "ready_of h (UserFn n) options = ready_calls h n options"
| "ready_of h f options = []"

text \<open>
  The two continuations page.ts hands to \<open>ready\<close>, run for the calls \<open>ready\<close> makes. The
  state is the promise, the calls so far and the configuration. The \<open>resolve\<close>
  continuation is \<open>resolve(response || isUndefined(response) ? makeDom(cfg, response) : null)\<close>:
  when \<open>makeDom\<close> throws, \<open>resolve\<close> is not called. An exception that leaves \<open>ready\<close>
  leaves the executor too, and the promise constructor rejects the promise with it; what
  \<open>ready\<close> would have done next is not done. An exception that does not reach the
  executor leaves the promise as it is.
\<close>

fun continue_ready ::
  "page_host \<Rightarrow> (string \<times> fnref list) list \<Rightarrow> obj \<Rightarrow> continuation list
     \<Rightarrow> promise \<times> page_event list \<times> obj \<Rightarrow> promise \<times> page_event list \<times> obj" where
  "continue_ready h hs defs [] st = st"
| "continue_ready h hs defs (Resolve site response # cs) (p, es, cfg) =
     (if truthy response \<or> isUndefined response then
        (let (built, cfg', calls) = makeDom h hs defs cfg response
         in case built of
              Inr doc \<Rightarrow>
                continue_ready h hs defs cs (settle_once p (Fulfilled (PDoc doc)), es @ calls, cfg')
            | Inl err \<Rightarrow>
                (case site of
                   InReady \<Rightarrow> (settle_once p (Rejected (thrown err)), es @ calls, cfg')
                 | Later \<Rightarrow> continue_ready h hs defs cs (p, es @ calls, cfg')))
      else continue_ready h hs defs cs (settle_once p (Fulfilled (PVal JNull)), es, cfg))"
| "continue_ready h hs defs (Reject reason # cs) (p, es, cfg) =
     continue_ready h hs defs cs (settle_once p (Rejected reason), es, cfg)"

text \<open>
  The branch \<open>else if (cfg.url)\<close>: the request is made, and the two callbacks given to
  \<open>then\<close> run when its promise settles. An exception of \<open>makeDom\<close> in the first
  callback rejects the promise \<open>then\<close> returns, which is dropped: the promise of the
  page is left pending.
\<close>

definition page_by_url ::
  "page_host \<Rightarrow> (string \<times> fnref list) list \<Rightarrow> obj \<Rightarrow> obj \<Rightarrow> promise \<times> page_event list \<times> obj" where
  "page_by_url h hs defs cfg =
     (let url = obj_get cfg ''url''; options = obj_get cfg ''options''
      in case Ajax_get (xhr_send h) url options of
           Pending \<Rightarrow> (Pending, [AjaxGet url options], cfg)
         | Fulfilled xhr \<Rightarrow>
             (let response = (case xhr of PVal x \<Rightarrow> get_prop x ''response'' | PDoc d \<Rightarrow> JUndefined);
                  (built, cfg', calls) = makeDom h hs defs cfg response
              in case built of
                   Inr doc \<Rightarrow> (Fulfilled (PDoc doc), AjaxGet url options # calls, cfg')
                 | Inl err \<Rightarrow> (Pending, AjaxGet url options # calls, cfg'))
         | Rejected xhr \<Rightarrow>
             (case obj_get cfg ''onError'' of
                JFun g \<Rightarrow>
                  (Pending, [AjaxGet url options, CallOnError g (get_prop xhr ''response'') xhr], cfg)
              | _ \<Rightarrow> (Rejected xhr, [AjaxGet url options], cfg)))"

text \<open>
  The last branch: \<open>resolve(makeDom(cfg))\<close>, in the executor of the promise. When
  \<open>makeDom\<close> throws, the promise constructor rejects the promise with the exception.
\<close>

definition page_by_template ::
  "page_host \<Rightarrow> (string \<times> fnref list) list \<Rightarrow> obj \<Rightarrow> obj \<Rightarrow> promise \<times> page_event list \<times> obj" where
  "page_by_template h hs defs cfg =
     (let (built, cfg', calls) = makeDom h hs defs cfg JUndefined
      in case built of
           Inr doc \<Rightarrow> (Fulfilled (PDoc doc), calls, cfg')
         | Inl err \<Rightarrow> (Rejected (thrown err), calls, cfg'))"

text \<open>
  The function \<open>makePage(cfg)\<close> returns, called with \<open>options\<close> while the module's defaults
  are \<open>defs\<close>: the promise it returns as it ends up, the calls made, and the configuration,
  which is changed in place.
\<close>

definition page_call ::
  "page_host \<Rightarrow> (string \<times> fnref list) list \<Rightarrow> obj \<Rightarrow> obj \<Rightarrow> jsval \<Rightarrow> promise \<times> page_event list \<times> obj" where
  "page_call h hs defs cfg0 options =
     (let cfg = defaultsDeep cfg0 defs
      in case obj_get cfg ''ready'' of
           JFun f \<Rightarrow>
             continue_ready h hs defs (ready_of h f options) (Pending, [CallReady f options], cfg)
         | _ \<Rightarrow>
             if truthy (obj_get cfg ''url'') then page_by_url h hs defs cfg
             else page_by_template h hs defs cfg)"

text \<open>The calls that show which branch of the page function ran.\<close>

fun is_ready_call :: "page_event \<Rightarrow> bool" where
  "is_ready_call (CallReady f options) = True"
| "is_ready_call e = False"

fun is_transport_call :: "page_event \<Rightarrow> bool" where
  "is_transport_call (AjaxGet url options) = True"
| "is_transport_call e = False"

section \<open>Concrete inputs\<close>

text \<open>
  A document with no element and no listener, as an XML parser gives for the empty string;
  a TVML document, which has a \<open>document\<close> element; and a menu with one item.
\<close>

definition doc0 :: document where
  "doc0 = \<lparr>doc_query = (\<lambda>s. Inr []), doc_root = False, doc_head = None, doc_listeners = [],
            doc_wrappers = 0, doc_page = None\<rparr>"

definition tvml_doc :: document where
  "tvml_doc = doc0\<lparr>doc_root := True\<rparr>"

definition loader_doc :: "jsval \<Rightarrow> document" where
  "loader_doc message = doc0\<lparr>doc_head := Some ''loader''\<rparr>"

definition error_doc :: "jsval \<Rightarrow> document" where
  "error_doc error = doc0\<lparr>doc_head := Some ''error''\<rparr>"

definition home_item :: item where
  "home_item = \<lparr>item_id = ''home'', item_attributes = [], item_name = JStr ''Home'',
                 item_page = JFun (UserFn 0)\<rparr>"

definition home_menu :: menu where
  "home_menu = snd (snd (Menu_create (\<lambda>n x. x) menu0 (empty_cfg\<lparr>cfg_items := Some [home_item]\<rparr>)))"

definition home_el :: menu_item where
  "home_el = hd (menuItems home_menu)"

text \<open>
  A document in which the selector \<open>.item\<close> matches three elements, and a configuration
  that binds two handlers to \<open>select .item\<close>.
\<close>

definition items_doc :: document where
  "items_doc = doc0\<lparr>doc_query := (\<lambda>s. if s = ''.item'' then Inr [0, 1, 2] else Inr [])\<rparr>"

definition two_handlers_cfg :: obj where
  "two_handlers_cfg =
     [(''events'', JObj [(''select .item'', JArr [JFun (UserFn 1), JFun (UserFn 2)])])]"

text \<open>
  Surroundings in which the default template, which returns the empty string, is parsed
  to the document with no element and any other template to a TVML document; every
  request is answered with status 500; the function 7 used as \<open>ready\<close> resolves with
  \<open>null\<close>, the function 8 rejects with \<open>x\<close>, and any other resolves, while it runs,
  with the options it was given.
\<close>

definition example_host :: page_host where
  "example_host =
     \<lparr>Parser_dom = (\<lambda>template data. if template = JFun DefaultTemplate \<or> template = JStr [] then doc0 else tvml_doc),
      user_call = (\<lambda>n x. x),
      ready_calls = (\<lambda>n options.
        if n = 7 then [Resolve InReady JNull]
        else if n = 8 then [Reject (JStr ''x'')]
        else [Resolve InReady options]),
      xhr_send = (\<lambda>method url options. Some (ReadyState4, 500, JStr ''down''))\<rparr>"

section \<open>Properties of the registry\<close>

lemma Page_create_pages:
  "pages (snd (Page_create r n c)) =
     AList.update (create_name n c) (fst (Page_create r n c)) (pages r)"
  by (simp add: Page_create_def makePage_def Let_def split: prod.splits)

lemma Page_create_page:
  "fst (Page_create r n c) =
     \<lparr>page_id = closures r, page_cfg = assign_name (create_cfg n c) (create_name n c)\<rparr>"
  by (simp add: Page_create_def makePage_def Let_def split: prod.splits)

lemma Page_create_closures:
  "closures (snd (Page_create r n c)) = Suc (closures r)"
  by (simp add: Page_create_def makePage_def Let_def split: prod.splits)

lemma Page_create_warned:
  "warned (snd (Page_create r n c)) =
     warned r
     @ (if \<not> truthy (create_name n c) \<or> \<not> isString (create_name n c)
        then [CreatingPageWithoutName] else [])
     @ (if map_of (pages r) (create_name n c) \<noteq> None
        then [PageNameAlreadyExists (create_name n c)] else [])"
  by (simp add: Page_create_def makePage_def Let_def split: prod.splits)

text \<open>
  C7. Two registrations that resolve to the same page name: the second one replaces the
  first. \<open>Page_create\<close> is a total function with no failure result, the second call adds
  the warning that the name already exists to the log, and afterwards \<open>get\<close> with that
  name returns the page of the second registration, which is a different closure from
  the first one. \<open>get\<close> reads the map only: for a name with no entry it returns the
  absent value, and the number of entries is what the registrations left.
\<close>

theorem create_twice_last_wins:
  assumes "Page_create r n1 c1 = (p1, r1)"
    and "Page_create r1 n2 c2 = (p2, r2)"
    and "create_name n1 c1 = k"
    and "create_name n2 c2 = k"
  shows "Page_get r1 k = Some p1
       \<and> Page_get r2 k = Some p2
       \<and> p2 \<noteq> p1
       \<and> page_cfg p2 = assign_name (create_cfg n2 c2) k
       \<and> PageNameAlreadyExists k \<in> set (warned r2)
       \<and> map fst (pages r2) = map fst (pages r1)
       \<and> (\<forall>m. m \<noteq> k \<longrightarrow> Page_get r2 m = Page_get r m)
       \<and> (\<forall>m. m \<notin> fst ` set (pages r2) \<longrightarrow> Page_get r2 m = None)"
proof -
  have p1: "p1 = fst (Page_create r n1 c1)" and r1: "r1 = snd (Page_create r n1 c1)"
    using assms(1) by simp_all
  have p2: "p2 = fst (Page_create r1 n2 c2)" and r2: "r2 = snd (Page_create r1 n2 c2)"
    using assms(2) by simp_all
  have pg1: "pages r1 = AList.update k p1 (pages r)"
    unfolding r1 p1 using Page_create_pages [of r n1 c1] assms(3) by simp
  have pg2: "pages r2 = AList.update k p2 (pages r1)"
    unfolding r2 p2 using Page_create_pages [of r1 n2 c2] assms(4) by simp
  have g1: "Page_get r1 k = Some p1"
    by (simp add: Page_get_def pg1 update_conv')
  have g2: "Page_get r2 k = Some p2"
    by (simp add: Page_get_def pg2 update_conv')
  have id1: "page_id p1 = closures r"
    unfolding p1 by (simp add: Page_create_page)
  have id2: "page_id p2 = Suc (closures r)"
    unfolding p2 r1 by (simp add: Page_create_page Page_create_closures)
  have ne: "p2 \<noteq> p1"
    using id1 id2 by auto
  have cfg2: "page_cfg p2 = assign_name (create_cfg n2 c2) k"
    unfolding p2 using assms(4) by (simp add: Page_create_page)
  have "map_of (pages r1) k \<noteq> None"
    using g1 by (simp add: Page_get_def)
  then have w: "PageNameAlreadyExists k \<in> set (warned r2)"
    unfolding r2 using assms(4) by (simp add: Page_create_warned)
  have "k \<in> fst ` set (pages r1)"
    using g1 by (auto simp: Page_get_def dest: map_of_SomeD intro: rev_image_eqI)
  then have keys: "map fst (pages r2) = map fst (pages r1)"
    by (simp add: pg2 update_keys)
  have other: "\<forall>m. m \<noteq> k \<longrightarrow> Page_get r2 m = Page_get r m"
    by (simp add: Page_get_def pg1 pg2 update_conv')
  have absent: "\<forall>m. m \<notin> fst ` set (pages r2) \<longrightarrow> Page_get r2 m = None"
    by (simp add: Page_get_def map_of_eq_None_iff)
  show ?thesis
    using g1 g2 ne cfg2 w keys other absent by blast
qed

theorem create_twice_last_wins_witness:
  "Page_get (snd (Page_create (snd (Page_create registry0 (JStr ''home'') (JObj [(''url'', JStr ''/a'')])))
                 (JStr ''home'') (JObj [(''url'', JStr ''/b'')]))) (JStr ''home'')
     = Some \<lparr>page_id = 1, page_cfg = JObj [(''url'', JStr ''/b''), (''name'', JStr ''home'')]\<rparr>
   \<and> Page_get registry0 (JStr ''home'') = None"
proof -
  obtain p1 r1 where c1:
    "Page_create registry0 (JStr ''home'') (JObj [(''url'', JStr ''/a'')]) = (p1, r1)"
    by (cases "Page_create registry0 (JStr ''home'') (JObj [(''url'', JStr ''/a'')])")
  obtain p2 r2 where c2:
    "Page_create r1 (JStr ''home'') (JObj [(''url'', JStr ''/b'')]) = (p2, r2)"
    by (cases "Page_create r1 (JStr ''home'') (JObj [(''url'', JStr ''/b'')])")
  have n: "create_name (JStr ''home'') (JObj [(''url'', JStr ''/a'')]) = JStr ''home''"
    "create_name (JStr ''home'') (JObj [(''url'', JStr ''/b'')]) = JStr ''home''"
    by (simp_all add: create_name_def)
  have r1: "r1 = snd (Page_create registry0 (JStr ''home'') (JObj [(''url'', JStr ''/a'')]))"
    using c1 by simp
  have "closures r1 = 1"
    unfolding r1 by (simp add: Page_create_closures registry0_def)
  then have "p2 = \<lparr>page_id = 1, page_cfg = JObj [(''url'', JStr ''/b''), (''name'', JStr ''home'')]\<rparr>"
    using c2 Page_create_page [of r1 "JStr ''home''" "JObj [(''url'', JStr ''/b'')]"]
    by (simp add: create_cfg_def create_name_def)
  moreover have "Page_get r2 (JStr ''home'') = Some p2"
    using create_twice_last_wins [OF c1 c2 n] by blast
  moreover have "Page_get registry0 (JStr ''home'') = None"
    by (simp add: Page_get_def registry0_def)
  ultimately show ?thesis
    using c1 c2 by simp
qed

section \<open>Properties of the menu module\<close>







section \<open>Properties of the menu item handler\<close>

lemma home_menu_eq:
  "home_menu = \<lparr>created = True,
      defaults = \<lparr>attributes = [], rootTemplateAttributes = [],
         items = [home_item\<lparr>item_attributes := [(''id'', JStr ''home'')]\<rparr>],
         loadingMessage = JStr [], errorMessage = JStr []\<rparr>,
      menuBarEl = [], menuBarTpl = [],
      menuItems = [\<lparr>el_nodeName = ''menuItem'', el_attributes = [(''id'', ''home'')],
          el_innerHTML = ''<title>Home</title>'', el_page = JFun (UserFn 0),
          el_pageDoc = PVal JUndefined\<rparr>],
      itemsCache = [(''home'', 0)]\<rparr>"
  by (simp add: home_menu_def Menu_create_def addItem_def setAttributes_def setAttribute_def
      menu0_def empty_cfg_def assign_options_def home_item_def)

lemma home_el_eq:
  "home_el = \<lparr>el_nodeName = ''menuItem'', el_attributes = [(''id'', ''home'')],
          el_innerHTML = ''<title>Home</title>'', el_page = JFun (UserFn 0),
          el_pageDoc = PVal JUndefined\<rparr>"
  by (simp add: home_el_def home_menu_eq)

lemma toLowerCase_menuItem: "toLowerCase ''menuItem'' = ''menuitem''"
  by (simp add: toLowerCase_def lower_char_def)

lemma invocations_append: "invocations (xs @ ys) = invocations xs @ invocations ys"
  by (induction xs rule: invocations.induct) simp_all

lemma invocations_setDocument: "invocations (Menu_setDocument m d i) = []"
  by (simp add: Menu_setDocument_def split: option.splits)

lemma invocations_select:
  "invocations (fst (snd (onMenuItemSelect user ld ed settle m k el))) =
     (if toLowerCase (el_nodeName el) = ''menuitem''
         \<and> (\<not> truthy_p (el_pageDoc el)
              \<or> truthy (getAttribute (el_attributes el) menuItemReloadAttribute))
      then (case el_page el of JFun f \<Rightarrow> [f] | _ \<Rightarrow> []) else [])"
  by (auto simp: onMenuItemSelect_def Let_def page_fulfilled_def page_rejected_def
      invocations_append invocations_setDocument split: jsval.splits promise.splits)

text \<open>
  C4 (as amended). A selection that passes the guard of \<open>onMenuItemSelect\<close> (a
  \<open>menuItem\<close> whose \<open>page\<close> is a function and whose \<open>pageDoc\<close> is unset or whose
  reload attribute is set) and whose id is in \<open>itemsCache\<close> first publishes the loading
  document and invokes the page. When the page promise is rejected, the error document built
  from the rejection value is published to the item and then the modal is dismissed. When
  it is fulfilled with a truthy document, the document is recorded on the item and
  published, and then the modal is dismissed. When it is fulfilled with a falsy value
  (\<open>null\<close>), nothing more is published and nothing is recorded: only the modal is
  dismissed.
\<close>

theorem menu_select_outcomes:
  assumes "toLowerCase (el_nodeName el) = ''menuitem''"
    and "el_page el = JFun f"
    and "\<not> truthy_p (el_pageDoc el)
         \<or> truthy (getAttribute (el_attributes el) menuItemReloadAttribute)"
    and "map_of (itemsCache m) (to_string (getAttribute (el_attributes el) ''id'')) = Some i"
  shows "(settle f k = Rejected e \<longrightarrow>
            onMenuItemSelect user ld ed settle m k el =
              (None,
               [FeatureSetDocument (PDoc (ld (getLoadingMessage user m))) i, InvokePage f,
                FeatureSetDocument (PDoc (ed e)) i, DismissModal],
               el))
       \<and> (settle f k = Fulfilled d \<and> truthy_p d \<longrightarrow>
            onMenuItemSelect user ld ed settle m k el =
              (None,
               [FeatureSetDocument (PDoc (ld (getLoadingMessage user m))) i, InvokePage f,
                FeatureSetDocument d i, DismissModal],
               el\<lparr>el_pageDoc := d\<rparr>))
       \<and> (settle f k = Fulfilled d \<and> \<not> truthy_p d \<longrightarrow>
            onMenuItemSelect user ld ed settle m k el =
              (None,
               [FeatureSetDocument (PDoc (ld (getLoadingMessage user m))) i, InvokePage f,
                DismissModal],
               el))"
  using assms
  by (auto simp: onMenuItemSelect_def Let_def page_fulfilled_def page_rejected_def
      Menu_setDocument_def)

theorem menu_select_outcomes_witness:
  "onMenuItemSelect (\<lambda>n x. x) loader_doc error_doc (\<lambda>f k. Rejected (JStr ''offline'')) home_menu 0 home_el =
     (None,
      [FeatureSetDocument (PDoc (loader_doc (JStr []))) 0, InvokePage (UserFn 0),
       FeatureSetDocument (PDoc (error_doc (JStr ''offline''))) 0, DismissModal],
      home_el)"
  using menu_select_outcomes [of home_el "UserFn 0" home_menu 0 "\<lambda>f k. Rejected (JStr ''offline'')" 0
      "JStr ''offline''" "\<lambda>n x. x" loader_doc error_doc "PVal JNull"]
  by (simp add: home_el_eq home_menu_eq toLowerCase_menuItem getAttribute_def getLoadingMessage_def
      menuItemReloadAttribute_def)

text \<open>
  C4 as stated fails: a page fulfilled with \<open>null\<close> publishes no error document. The
  effects are the loading document, the invocation and the dismissal.
\<close>

theorem menu_select_null_counterexample:
  "onMenuItemSelect (\<lambda>n x. x) loader_doc error_doc (\<lambda>f k. Fulfilled (PVal JNull)) home_menu 0 home_el =
     (None, [FeatureSetDocument (PDoc (loader_doc (JStr []))) 0, InvokePage (UserFn 0), DismissModal],
      home_el)"
  by (simp add: onMenuItemSelect_def home_el_eq home_menu_eq toLowerCase_menuItem getAttribute_def
      getLoadingMessage_def menuItemReloadAttribute_def Menu_setDocument_def page_fulfilled_def)

lemma item_events_recorded:
  assumes "truthy_p (el_pageDoc el)"
    and "\<not> truthy (getAttribute (el_attributes el) menuItemReloadAttribute)"
  shows "item_events user ld ed settle m (replicate n Select) (el, tr) = (el, tr)"
  using assms by (induction n) (simp_all add: onMenuItemSelect_def Let_def)

lemma select_unrecorded:
  assumes "toLowerCase (el_nodeName el) = ''menuitem''"
    and "el_page el = JFun f"
    and "\<not> truthy_p (el_pageDoc el)"
    and "\<And>d. settle f k = Fulfilled d \<Longrightarrow> \<not> truthy_p d"
  shows "snd (snd (onMenuItemSelect user ld ed settle m k el)) = el"
  using assms
  by (cases "settle f k")
    (simp_all add: onMenuItemSelect_def Let_def page_fulfilled_def page_rejected_def)

lemma item_events_unrecorded:
  assumes "toLowerCase (el_nodeName el) = ''menuitem''"
    and "el_page el = JFun f"
    and "\<not> truthy_p (el_pageDoc el)"
    and "\<And>k d. settle f k = Fulfilled d \<Longrightarrow> \<not> truthy_p d"
  shows "fst (item_events user ld ed settle m (replicate n Select) (el, tr)) = el
       \<and> invocations (snd (item_events user ld ed settle m (replicate n Select) (el, tr)))
           = invocations tr @ replicate n f"
proof (induction n arbitrary: tr)
  case 0
  show ?case by simp
next
  case (Suc n)
  let ?k = "length (invocations tr)"
  obtain r es el' where s: "onMenuItemSelect user ld ed settle m ?k el = (r, es, el')"
    by (cases "onMenuItemSelect user ld ed settle m ?k el")
  have el: "el' = el"
    using select_unrecorded [OF assms(1,2,3), of settle ?k user ld ed m] assms(4) s by simp
  have inv: "invocations es = [f]"
    using invocations_select [of user ld ed settle m ?k el] assms(1,2,3) s by simp
  show ?case
    using Suc.IH [of "tr @ es"]
    by (simp add: s el inv invocations_append replicate_append_same)
qed

text \<open>
  C5 (as amended). An item whose \<open>pageDoc\<close> is recorded and whose reload attribute is
  absent or empty is left alone by a selection: no page invocation, no effect, the element
  unchanged, and so over any number of selections. Setting the reload attribute of such a
  \<open>menuItem\<close> to a non-empty value and selecting it invokes its page function exactly
  once more. A \<open>menuItem\<close> with a page function and no \<open>pageDoc\<close> recorded has its page
  function invoked, once, by a selection; and while the promises of the page are
  rejected, fulfilled with a falsy value or pending, nothing is recorded, so that each of
  any number of selections invokes it.
\<close>

theorem menu_select_recorded:
  "(truthy_p (el_pageDoc el)
      \<and> \<not> truthy (getAttribute (el_attributes el) menuItemReloadAttribute) \<longrightarrow>
        onMenuItemSelect user ld ed settle m k el = (None, [], el)
      \<and> item_events user ld ed settle m (replicate n Select) (el, tr) = (el, tr)
      \<and> (toLowerCase (el_nodeName el) = ''menuitem'' \<and> el_page el = JFun f \<and> v \<noteq> [] \<longrightarrow>
            invocations (snd (item_events user ld ed settle m
               [SetAttr menuItemReloadAttribute v, Select] (el, tr))) = invocations tr @ [f]))
   \<and> (\<not> truthy_p (el_pageDoc el)
      \<and> toLowerCase (el_nodeName el) = ''menuitem'' \<and> el_page el = JFun f \<longrightarrow>
        invocations (fst (snd (onMenuItemSelect user ld ed settle m k el))) = [f]
      \<and> ((\<forall>i d. settle f i = Fulfilled d \<longrightarrow> \<not> truthy_p d) \<longrightarrow>
            fst (item_events user ld ed settle m (replicate n Select) (el, tr)) = el
          \<and> invocations (snd (item_events user ld ed settle m (replicate n Select) (el, tr)))
              = invocations tr @ replicate n f))"
proof -
  have one: "onMenuItemSelect user ld ed settle m k el = (None, [], el)"
    if "truthy_p (el_pageDoc el)"
      "\<not> truthy (getAttribute (el_attributes el) menuItemReloadAttribute)"
    using that by (simp add: onMenuItemSelect_def Let_def)
  have many: "item_events user ld ed settle m (replicate n Select) (el, tr) = (el, tr)"
    if "truthy_p (el_pageDoc el)"
      "\<not> truthy (getAttribute (el_attributes el) menuItemReloadAttribute)"
    using that by (rule item_events_recorded)
  have again: "invocations (snd (item_events user ld ed settle m
               [SetAttr menuItemReloadAttribute v, Select] (el, tr))) = invocations tr @ [f]"
    if "toLowerCase (el_nodeName el) = ''menuitem''" "el_page el = JFun f" "v \<noteq> []"
  proof -
    let ?el = "el\<lparr>el_attributes := AList.update menuItemReloadAttribute v (el_attributes el)\<rparr>"
    have "invocations (fst (snd (onMenuItemSelect user ld ed settle m (length (invocations tr)) ?el))) = [f]"
      using that by (simp add: invocations_select getAttribute_def update_conv')
    then show ?thesis
      by (cases "onMenuItemSelect user ld ed settle m (length (invocations tr)) ?el")
        (simp add: invocations_append)
  qed
  have fresh: "invocations (fst (snd (onMenuItemSelect user ld ed settle m k el))) = [f]"
    if "\<not> truthy_p (el_pageDoc el)" "toLowerCase (el_nodeName el) = ''menuitem''"
      "el_page el = JFun f"
    using that by (simp add: invocations_select)
  have every: "fst (item_events user ld ed settle m (replicate n Select) (el, tr)) = el
       \<and> invocations (snd (item_events user ld ed settle m (replicate n Select) (el, tr)))
           = invocations tr @ replicate n f"
    if "\<not> truthy_p (el_pageDoc el)" "toLowerCase (el_nodeName el) = ''menuitem''"
      "el_page el = JFun f" "\<forall>i d. settle f i = Fulfilled d \<longrightarrow> \<not> truthy_p d"
    using item_events_unrecorded [OF that(2,3,1), of settle user ld ed m n tr] that(4) by blast
  show ?thesis
    using one many again fresh every by blast
qed

theorem menu_select_recorded_witness:
  "invocations (snd (item_events (\<lambda>n x. x) loader_doc error_doc (\<lambda>f k. Fulfilled (PDoc doc0)) home_menu
       [SetAttr menuItemReloadAttribute ''true'', Select]
       (home_el\<lparr>el_pageDoc := PDoc doc0\<rparr>, [InvokePage (UserFn 0)])))
     = [UserFn 0, UserFn 0]
   \<and> item_events (\<lambda>n x. x) loader_doc error_doc (\<lambda>f k. Fulfilled (PDoc doc0)) home_menu
       [Select, Select, Select] (home_el\<lparr>el_pageDoc := PDoc doc0\<rparr>, [InvokePage (UserFn 0)])
     = (home_el\<lparr>el_pageDoc := PDoc doc0\<rparr>, [InvokePage (UserFn 0)])
   \<and> invocations (fst (snd (onMenuItemSelect (\<lambda>n x. x) loader_doc error_doc
       (\<lambda>f k. Fulfilled (PVal JNull)) home_menu 0 home_el))) = [UserFn 0]
   \<and> invocations (snd (item_events (\<lambda>n x. x) loader_doc error_doc (\<lambda>f k. Fulfilled (PVal JNull))
       home_menu [Select, Select, Select] (home_el, []))) = [UserFn 0, UserFn 0, UserFn 0]"
proof -
  have a: "invocations (snd (item_events (\<lambda>n x. x) loader_doc error_doc (\<lambda>f k. Fulfilled (PDoc doc0)) home_menu
       [SetAttr menuItemReloadAttribute ''true'', Select]
       (home_el\<lparr>el_pageDoc := PDoc doc0\<rparr>, [InvokePage (UserFn 0)])))
     = [UserFn 0, UserFn 0]
   \<and> item_events (\<lambda>n x. x) loader_doc error_doc (\<lambda>f k. Fulfilled (PDoc doc0)) home_menu
       [Select, Select, Select] (home_el\<lparr>el_pageDoc := PDoc doc0\<rparr>, [InvokePage (UserFn 0)])
     = (home_el\<lparr>el_pageDoc := PDoc doc0\<rparr>, [InvokePage (UserFn 0)])"
    using menu_select_recorded [where el = "home_el\<lparr>el_pageDoc := PDoc doc0\<rparr>" and user = "\<lambda>n x. x"
        and ld = loader_doc and ed = error_doc and settle = "\<lambda>f k. Fulfilled (PDoc doc0)"
        and m = home_menu and k = 0 and n = 3 and tr = "[InvokePage (UserFn 0)]"
        and f = "UserFn 0" and v = "''true''"]
    by (simp add: home_el_eq toLowerCase_menuItem getAttribute_def menuItemReloadAttribute_def
        numeral_3_eq_3)
  have b: "invocations (fst (snd (onMenuItemSelect (\<lambda>n x. x) loader_doc error_doc
       (\<lambda>f k. Fulfilled (PVal JNull)) home_menu 0 home_el))) = [UserFn 0]
   \<and> invocations (snd (item_events (\<lambda>n x. x) loader_doc error_doc (\<lambda>f k. Fulfilled (PVal JNull))
       home_menu [Select, Select, Select] (home_el, []))) = [UserFn 0, UserFn 0, UserFn 0]"
    using menu_select_recorded [where el = home_el and user = "\<lambda>n x. x"
        and ld = loader_doc and ed = error_doc and settle = "\<lambda>f k. Fulfilled (PVal JNull)"
        and m = home_menu and k = 0 and n = 3 and tr = "[]" and f = "UserFn 0"]
    by (simp add: home_el_eq toLowerCase_menuItem numeral_3_eq_3)
  show ?thesis
    using a b by simp
qed

text \<open>
  C5 as stated fails: \<open>pageDoc\<close> is recorded only by a fulfilment with a truthy document,
  so an item whose page is rejected is invoked again by every selection, with no reload
  attribute on it.
\<close>

theorem menu_select_retry_counterexample:
  "getAttribute (el_attributes home_el) menuItemReloadAttribute = JNull
   \<and> invocations (snd (item_events (\<lambda>n x. x) loader_doc error_doc (\<lambda>f k. Rejected (JStr ''offline''))
        home_menu [Select, Select] (home_el, []))) = [UserFn 0, UserFn 0]"
  by (simp add: onMenuItemSelect_def home_el_eq home_menu_eq toLowerCase_menuItem getAttribute_def
      getLoadingMessage_def menuItemReloadAttribute_def Menu_setDocument_def page_rejected_def)

section \<open>Properties of the event binder\<close>

lemmas binds = setListeners_def addListeners_def removeListeners_def bind_entry_def bind_fn_def
  bind_target_def descriptor_targets_def descriptor_event_def descriptor_selector_def
  after_first_space_def addEventListener_def removeEventListener_def obj_get_def

lemma bind_fn_no_targets: "bind_fn add ev [] cfg d fn = d"
  by (simp add: bind_fn_def split: jsval.splits)

lemma fold_bind_fn_no_targets: "fold (\<lambda>fn d. bind_fn add ev [] cfg d fn) fns d = d"
  by (induction fns) (simp_all add: bind_fn_no_targets)

text \<open>
  Detaching never unregisters what attaching registered: \<open>setListeners\<close> hands
  \<open>removeEventListener\<close> an arrow function it has just created, which is no listener of
  any target.
\<close>

lemma bind_target_remove:
  assumes "fresh_wrappers d"
  shows "doc_listeners (bind_target False ev f cfg d t) = doc_listeners d
       \<and> fresh_wrappers (bind_target False ev f cfg d t)"
proof -
  have "(t, ev, Wrapper (doc_wrappers d) f cfg) \<notin> set (doc_listeners d)"
    using assms by (auto simp: fresh_wrappers_def list_all_iff)
  then have "removeAll (t, ev, Wrapper (doc_wrappers d) f cfg) (doc_listeners d) = doc_listeners d"
    by simp
  then show ?thesis
    using assms
    by (auto simp: bind_target_def removeEventListener_def Let_def fresh_wrappers_def list_all_iff
        split: listener.splits)
qed

lemma fold_bind_target_remove:
  "fresh_wrappers d \<Longrightarrow>
     doc_listeners (fold (\<lambda>t d. bind_target False ev f cfg d t) ts d) = doc_listeners d
     \<and> fresh_wrappers (fold (\<lambda>t d. bind_target False ev f cfg d t) ts d)"
  by (induction ts arbitrary: d) (simp_all add: bind_target_remove)

lemma bind_fn_remove:
  "fresh_wrappers d \<Longrightarrow>
     doc_listeners (bind_fn False ev ts cfg d fn) = doc_listeners d
     \<and> fresh_wrappers (bind_fn False ev ts cfg d fn)"
  by (simp add: bind_fn_def fold_bind_target_remove split: jsval.splits)

lemma fold_bind_fn_remove:
  "fresh_wrappers d \<Longrightarrow>
     doc_listeners (fold (\<lambda>fn d. bind_fn False ev ts cfg d fn) fns d) = doc_listeners d
     \<and> fresh_wrappers (fold (\<lambda>fn d. bind_fn False ev ts cfg d fn) fns d)"
  by (induction fns arbitrary: d) (simp_all add: bind_fn_remove)

lemma bind_entry_remove:
  "fresh_wrappers d \<Longrightarrow>
     doc_listeners (bind_entry False cfg d entry) = doc_listeners d
     \<and> fresh_wrappers (bind_entry False cfg d entry)"
  by (simp add: bind_entry_def Let_def fold_bind_fn_remove)

lemma fold_bind_entry_remove:
  "fresh_wrappers d \<Longrightarrow>
     doc_listeners (fold (\<lambda>entry d. bind_entry False cfg d entry) es d) = doc_listeners d
     \<and> fresh_wrappers (fold (\<lambda>entry d. bind_entry False cfg d entry) es d)"
  by (induction es arbitrary: d) (simp_all add: bind_entry_remove)

lemma removeListeners_removes_nothing:
  assumes "fresh_wrappers d"
  shows "\<exists>d'. removeListeners (Some d) cfg = Some d' \<and> doc_listeners d' = doc_listeners d"
  using assms
  by (auto simp: removeListeners_def setListeners_def fold_bind_entry_remove split: jsval.splits)

text \<open>
  C3. With three elements matching \<open>.item\<close> and two handlers bound to
  \<open>select .item\<close>, attaching makes a dispatch of \<open>select\<close> at each of the three elements
  run each handler once, with the configuration as receiver. After detaching with the same
  document and configuration the same dispatch still runs both handlers at each element:
  the code does not reach the zero firings that the specification, and the comment of
  \<open>removeListeners\<close>, ask for.
\<close>

theorem detach_keeps_listeners:
  "map (\<lambda>i. dispatch_on (addListeners (Some items_doc) two_handlers_cfg) (TElement i) ''select'')
      [0, 1, 2]
     = replicate 3 [Fired (UserFn 1) (Some two_handlers_cfg), Fired (UserFn 2) (Some two_handlers_cfg)]
   \<and> map (\<lambda>i. dispatch_on (removeListeners (addListeners (Some items_doc) two_handlers_cfg)
                  two_handlers_cfg) (TElement i) ''select'') [0, 1, 2]
     = replicate 3 [Fired (UserFn 1) (Some two_handlers_cfg), Fired (UserFn 2) (Some two_handlers_cfg)]"
  by (simp add: binds items_doc_def two_handlers_cfg_def doc0_def dispatch_on_def dispatch_def
      numeral_3_eq_3 Let_def)

text \<open>
  C9. A descriptor with a selector whose query throws (a malformed selector, or a document
  without \<open>querySelectorAll\<close>): \<open>_.attempt\<close> turns the error into a value, the target
  set is empty, and the binding of the descriptor, attaching or detaching, returns the
  document as it was; the loop goes on with the remaining descriptors. A \<open>doc\<close> that is
  null or no Document makes \<open>setListeners\<close> return at once.
\<close>

theorem query_failure_binds_nothing:
  assumes "descriptor_selector e \<noteq> []"
    and "doc_query d (after_first_space e) = Inl err"
  shows "isError (attempt (doc_query d (after_first_space e)))
       \<and> descriptor_targets d e = []
       \<and> bind_entry add cfg d (e, fns) = d
       \<and> setListeners (Some d) [(''events'', JObj [(e, fns)])] add = Some d
       \<and> fold (\<lambda>entry d. bind_entry add cfg d entry) ((e, fns) # rest) d =
           fold (\<lambda>entry d. bind_entry add cfg d entry) rest d
       \<and> setListeners None cfg add = None"
proof -
  have t: "descriptor_targets d e = []"
    using assms by (simp add: descriptor_targets_def)
  have b: "bind_entry add c d (e, fns) = d" for c
    by (simp add: bind_entry_def t fold_bind_fn_no_targets)
  show ?thesis
    using assms t b by (simp add: setListeners_def obj_get_def)
qed

theorem query_failure_binds_nothing_witness:
  "setListeners (Some (doc0\<lparr>doc_query := (\<lambda>s. Inl SyntaxError)\<rparr>))
       [(''events'', JObj [(''select ..item'', JArr [JFun (UserFn 1), JFun (UserFn 2)])])] True
     = Some (doc0\<lparr>doc_query := (\<lambda>s. Inl SyntaxError)\<rparr>)
   \<and> descriptor_selector ''select ..item'' = ''..item''"
  using query_failure_binds_nothing [of "''select ..item''" "doc0\<lparr>doc_query := (\<lambda>s. Inl SyntaxError)\<rparr>"
      SyntaxError True "[]" "JArr [JFun (UserFn 1), JFun (UserFn 2)]" "[]"]
  by (simp add: descriptor_selector_def)

section \<open>Properties of the defaults merge\<close>

lemma merge_value_undefined: "merge_value v s = JUndefined \<Longrightarrow> v = JUndefined"
  by (cases s; cases v) (simp_all split: if_splits)

lemma obj_get_assign_other:
  "k \<noteq> k' \<Longrightarrow> map_of (assignMergeValue ps k' v) k = map_of ps k"
  by (simp add: assignMergeValue_def update_conv')


lemma obj_get_assign_same:
  "(v = JUndefined \<Longrightarrow> obj_get ps k = JUndefined) \<Longrightarrow> obj_get (assignMergeValue ps k v) k = v"
  by (auto simp: assignMergeValue_def update_conv' obj_get_def split: option.splits)

lemma obj_get_assign_merge:
  "obj_get (assignMergeValue ps k (merge_value (obj_get ps k) s)) k = merge_value (obj_get ps k) s"
  by (rule obj_get_assign_same) (rule merge_value_undefined)




lemma merge_value_leaf: "defined_leaf v \<Longrightarrow> merge_value v s = v"
  by (cases s; cases v) simp_all

lemma obj_get_merge_props_iter:
  "\<exists>ss. obj_get (merge_props ps qs) k = foldl merge_value (obj_get ps k) ss"
proof (induction qs arbitrary: ps)
  case Nil
  have "obj_get ps k = foldl merge_value (obj_get ps k) []" by simp
  then show ?case by (simp del: foldl.simps) blast
next
  case (Cons q qs)
  let ?ps1 = "assignMergeValue ps (fst q) (merge_value (obj_get ps (fst q)) (snd q))"
  obtain ss where ss: "obj_get (merge_props ?ps1 qs) k = foldl merge_value (obj_get ?ps1 k) ss"
    using Cons.IH by blast
  show ?case
  proof (cases "fst q = k")
    case True
    then have "obj_get ?ps1 k = merge_value (obj_get ps k) (snd q)"
      using obj_get_assign_merge [of ps k "snd q"] by simp
    then have "obj_get (merge_props ps (q # qs)) k = foldl merge_value (obj_get ps k) (snd q # ss)"
      using ss by simp
    then show ?thesis by blast
  next
    case False
    then have "obj_get ?ps1 k = obj_get ps k"
      using obj_get_assign_other [of k "fst q" ps] by (simp add: obj_get_def)
    then have "obj_get (merge_props ps (q # qs)) k = foldl merge_value (obj_get ps k) ss"
      using ss by simp
    then show ?thesis by blast
  qed
qed

lemma merge_elems_nth:
  "i < length xs \<Longrightarrow>
     i < length (merge_elems xs ys)
     \<and> merge_elems xs ys ! i = (if i < length ys then merge_value (xs ! i) (ys ! i) else xs ! i)"
proof (induction ys arbitrary: xs i)
  case Nil
  then show ?case by simp
next
  case (Cons y ys)
  then obtain x xs' where xs: "xs = x # xs'" by (cases xs) auto
  show ?case
  proof (cases i)
    case 0
    then show ?thesis by (simp add: xs)
  next
    case (Suc j)
    then have "j < length xs'" using Cons.prems xs by simp
    then show ?thesis
      using Cons.IH [of j xs'] Suc xs by simp
  qed
qed

lemma at_path_foldl:
  assumes step: "\<And>v s. defined_leaf (at_path v p) \<Longrightarrow> at_path (merge_value v s) p = at_path v p"
    and leaf: "defined_leaf (at_path v p)"
  shows "at_path (foldl merge_value v ss) p = at_path v p"
  using leaf
proof (induction ss arbitrary: v)
  case Nil
  then show ?case by simp
next
  case (Cons s ss)
  have "at_path (merge_value v s) p = at_path v p"
    using step Cons.prems by blast
  then show ?case
    using Cons.IH [of "merge_value v s"] Cons.prems by simp
qed

lemma merge_value_keeps:
  "defined_leaf (at_path v p) \<Longrightarrow> at_path (merge_value v s) p = at_path v p"
proof (induction p arbitrary: v s)
  case Nil
  then show ?case by (simp add: merge_value_leaf)
next
  case (Cons st p)
  show ?case
  proof (cases st)
    case (Key k)
    then obtain ps where v: "v = JObj ps"
      using Cons.prems by (cases v) simp_all
    then have leaf: "defined_leaf (at_path (obj_get ps k) p)"
      using Cons.prems Key by simp
    show ?thesis
    proof (cases s)
      case (JObj qs)
      obtain ss where "obj_get (merge_props ps qs) k = foldl merge_value (obj_get ps k) ss"
        using obj_get_merge_props_iter by blast
      then have "at_path (obj_get (merge_props ps qs) k) p = at_path (obj_get ps k) p"
        using at_path_foldl [of p "obj_get ps k" ss] Cons.IH leaf by simp
      then show ?thesis by (simp add: v Key JObj)
    qed (simp_all add: v)
  next
    case (Index i)
    then obtain xs where v: "v = JArr xs"
      using Cons.prems by (cases v) simp_all
    then have i: "i < length xs" and leaf: "defined_leaf (at_path (xs ! i) p)"
      using Cons.prems Index by (simp_all split: if_splits)
    show ?thesis
    proof (cases s)
      case (JArr ys)
      have "at_path (merge_elems xs ys ! i) p = at_path (xs ! i) p"
        using merge_elems_nth [OF i, of ys] Cons.IH [OF leaf] by simp
      then show ?thesis
        using merge_elems_nth [OF i, of ys] i by (simp add: v Index JArr)
    qed (simp_all add: v)
  qed
qed


lemma obj_get_merge_props:
  "distinct (map fst qs) \<Longrightarrow>
     obj_get (merge_props ps qs) k =
       (case map_of qs k of None \<Rightarrow> obj_get ps k | Some sv \<Rightarrow> merge_value (obj_get ps k) sv)"
proof (induction qs arbitrary: ps)
  case Nil
  then show ?case by simp
next
  case (Cons q qs)
  obtain a sv where q: "q = (a, sv)" by (cases q)
  let ?ps1 = "assignMergeValue ps a (merge_value (obj_get ps a) sv)"
  have notin: "a \<notin> fst ` set qs" and d: "distinct (map fst qs)"
    using Cons.prems q by simp_all
  have step: "merge_props ps (q # qs) = merge_props ?ps1 qs"
    by (simp add: q)
  show ?case
  proof (cases "a = k")
    case True
    then have none: "map_of qs k = None"
      using notin by (simp add: map_of_eq_None_iff)
    have "obj_get (merge_props ?ps1 qs) k = obj_get ?ps1 k"
      using Cons.IH [OF d, of ?ps1] none by simp
    also have "\<dots> = merge_value (obj_get ps k) sv"
      using True obj_get_assign_merge [of ps k sv] by simp
    finally show ?thesis
      using True by (simp add: step q)
  next
    case False
    have same: "obj_get ?ps1 k = obj_get ps k"
      using False obj_get_assign_other [of k a ps] by (simp add: obj_get_def)
    have "obj_get (merge_props ?ps1 qs) k =
        (case map_of qs k of None \<Rightarrow> obj_get ?ps1 k | Some c \<Rightarrow> merge_value (obj_get ?ps1 k) c)"
      using Cons.IH [OF d, of ?ps1] .
    then show ?thesis
      using False by (simp add: step q same cong: option.case_cong)
  qed
qed

lemma wf_props_distinct: "wf_props qs \<Longrightarrow> distinct (map fst qs)"
  by (induction qs) auto

lemma wf_page_defaults: "wf_props page_defaults"
  by (simp add: page_defaults_def)

lemma page_defaults_lookup:
  "map_of page_defaults k =
     (if k = ''style'' then Some (JStr [])
      else if k = ''template'' then Some (JFun DefaultTemplate)
      else if k = ''data'' then Some (JFun DefaultData)
      else if k = ''options'' then Some (JObj [(''responseType'', JStr ''json'')])
      else None)"
  by (simp add: page_defaults_def)

lemma merged_page_defaults:
  "obj_get (defaultsDeep cfg page_defaults) k =
     (case map_of page_defaults k of None \<Rightarrow> obj_get cfg k
      | Some sv \<Rightarrow> merge_value (obj_get cfg k) sv)"
  unfolding defaultsDeep_def
  by (rule obj_get_merge_props) (rule wf_props_distinct [OF wf_page_defaults])

lemma merged_other_fields:
  "k \<notin> {''style'', ''template'', ''data'', ''options''} \<Longrightarrow>
     obj_get (defaultsDeep cfg page_defaults) k = obj_get cfg k"
  by (simp add: merged_page_defaults page_defaults_lookup)



section \<open>Properties of the page function\<close>

lemma settled_stays:
  "p \<noteq> Pending \<Longrightarrow> fst (continue_ready h hs defs cs (p, es, cfg)) = p"
proof (induction cs arbitrary: es cfg)
  case Nil
  then show ?case by simp
next
  case (Cons c cs)
  have s: "settle_once p q = p" for q
    using Cons.prems by (cases p) simp_all
  show ?case
    using Cons.IH [OF Cons.prems]
    by (cases c) (simp_all add: s split: prod.splits sum.splits call_site.splits)
qed

lemma makeDom_calls:
  "list_all (\<lambda>e. \<not> is_ready_call e \<and> \<not> is_transport_call e) (snd (snd (makeDom h hs defs cfg r)))"
  by (simp add: makeDom_def Let_def split: prod.splits jsval.splits sum.splits)

text \<open>
  \<open>makeDom\<close> throws in one case only: the style is a string and the parsed document has
  neither a head nor a \<open>document\<close> element. A parser that gives TVML documents never
  meets it.
\<close>

lemma appendStyle_root: "doc_root d \<Longrightarrow> \<exists>d'. appendStyle style d = Inr d'"
  by (cases style) (simp_all add: appendStyle_def)

lemma makeDom_builds:
  assumes "\<And>template data. doc_root (Parser_dom h template data)"
  shows "\<exists>doc. fst (makeDom h hs defs cfg r) = Inr doc"
proof -
  let ?r = "if r = JUndefined then JArr [] else r"
  let ?c = "lodash_defaults cfg defs"
  let ?d = "case obj_get ?c ''data'' of JFun f \<Rightarrow> call_fn (user_call h) f ?r | v \<Rightarrow> v"
  let ?p = "Parser_dom h (obj_get ?c ''template'') ?d"
  obtain d' where "appendStyle (obj_get (lodash_defaults ?c defs) ''style'') ?p = Inr d'"
    using appendStyle_root [OF assms] by blast
  then show ?thesis
    by (simp add: makeDom_def prepareDom_def Let_def cong: jsval.case_cong)
qed

lemma continue_ready_calls:
  "\<exists>es'. fst (snd (continue_ready h hs defs cs (p, es, cfg))) = es @ es'
        \<and> list_all (\<lambda>e. \<not> is_ready_call e \<and> \<not> is_transport_call e) es'"
proof (induction cs arbitrary: p es cfg)
  case Nil
  show ?case by simp
next
  case (Cons c cs)
  show ?case
  proof (cases c)
    case (Resolve site r)
    show ?thesis
    proof (cases "truthy r \<or> isUndefined r")
      case True
      obtain built cfg' calls where m: "makeDom h hs defs cfg r = (built, cfg', calls)"
        by (cases "makeDom h hs defs cfg r")
      have c: "list_all (\<lambda>e. \<not> is_ready_call e \<and> \<not> is_transport_call e) calls"
        using makeDom_calls [of h hs defs cfg r] m by simp
      have go: "\<exists>es''. fst (snd (continue_ready h hs defs cs (q, es @ calls, cfg'))) = es @ es''
          \<and> list_all (\<lambda>e. \<not> is_ready_call e \<and> \<not> is_transport_call e) es''" for q
      proof -
        obtain es' where
          "fst (snd (continue_ready h hs defs cs (q, es @ calls, cfg'))) = (es @ calls) @ es'"
          and "list_all (\<lambda>e. \<not> is_ready_call e \<and> \<not> is_transport_call e) es'"
          using Cons.IH by blast
        then have "fst (snd (continue_ready h hs defs cs (q, es @ calls, cfg'))) = es @ (calls @ es')
            \<and> list_all (\<lambda>e. \<not> is_ready_call e \<and> \<not> is_transport_call e) (calls @ es')"
          using c by simp
        then show ?thesis
          by blast
      qed
      show ?thesis
      proof (cases built)
        case (Inr doc)
        then show ?thesis
          using True go [of "settle_once p (Fulfilled (PDoc doc))"] by (simp add: Resolve m)
      next
        case (Inl err)
        show ?thesis
        proof (cases site)
          case InReady
          have "fst (snd (continue_ready h hs defs (c # cs) (p, es, cfg))) = es @ calls"
            using True by (simp add: Resolve m Inl InReady)
          then show ?thesis
            using c by blast
        next
          case Later
          then show ?thesis
            using True go [of p] by (simp add: Resolve m Inl)
        qed
      qed
    next
      case False
      then show ?thesis
        using Cons.IH [of "settle_once p (Fulfilled (PVal JNull))" es cfg] by (simp add: Resolve)
    qed
  next
    case (Reject e)
    then show ?thesis
      using Cons.IH [of "settle_once p (Rejected e)" es cfg] by simp
  qed
qed

lemma merged_keeps_function:
  "obj_get cfg k = JFun f \<Longrightarrow> obj_get (defaultsDeep cfg defs) k = JFun f"
  using merge_value_keeps [of "JObj cfg" "[Key k]" "JObj defs"]
  by (simp add: defaultsDeep_def)

text \<open>
  A configuration whose \<open>ready\<close> is a function: the page function calls it first, with the
  options of the call. The first continuation \<open>ready\<close> calls decides. \<open>resolve\<close> with a
  truthy value or with \<open>undefined\<close> runs \<open>makeDom\<close> on that value: the promise is
  fulfilled with the document when there is one, and when \<open>makeDom\<close> throws in a call made
  while \<open>ready\<close> runs, the promise is rejected with the exception. \<open>resolve\<close> with another
  falsy value fulfils the promise with \<open>null\<close>, and \<open>reject\<close> rejects it with the value
  passed. While no continuation is called the promise stays pending.
\<close>

lemma ready_branch:
  assumes "obj_get cfg ''ready'' = JFun f"
  shows "(\<exists>es. fst (snd (page_call h hs defs cfg options)) = CallReady f options # es)
       \<and> (ready_of h f options = [] \<longrightarrow> fst (page_call h hs defs cfg options) = Pending)
       \<and> (ready_of h f options = Resolve site r # cs \<and> (truthy r \<or> r = JUndefined)
            \<and> fst (makeDom h hs defs (defaultsDeep cfg defs) r) = Inr doc \<longrightarrow>
            fst (page_call h hs defs cfg options) = Fulfilled (PDoc doc))
       \<and> (ready_of h f options = Resolve InReady r # cs \<and> (truthy r \<or> r = JUndefined)
            \<and> fst (makeDom h hs defs (defaultsDeep cfg defs) r) = Inl err \<longrightarrow>
            fst (page_call h hs defs cfg options) = Rejected (thrown err))
       \<and> (ready_of h f options = Resolve site r # cs \<and> \<not> truthy r \<and> r \<noteq> JUndefined \<longrightarrow>
            fst (page_call h hs defs cfg options) = Fulfilled (PVal JNull))
       \<and> (ready_of h f options = Reject e # cs \<longrightarrow>
            fst (page_call h hs defs cfg options) = Rejected e)"
proof -
  let ?m = "defaultsDeep cfg defs"
  have r: "obj_get ?m ''ready'' = JFun f"
    using assms by (rule merged_keeps_function)
  have pc: "page_call h hs defs cfg options =
      continue_ready h hs defs (ready_of h f options) (Pending, [CallReady f options], ?m)"
    by (simp add: page_call_def r)
  have first: "\<exists>es. fst (snd (page_call h hs defs cfg options)) = CallReady f options # es"
    using continue_ready_calls [of h hs defs "ready_of h f options" Pending "[CallReady f options]" ?m]
    by (auto simp: pc)
  have none: "fst (page_call h hs defs cfg options) = Pending" if "ready_of h f options = []"
    using that by (simp add: pc)
  have built: "fst (page_call h hs defs cfg options) = Fulfilled (PDoc doc)"
    if "ready_of h f options = Resolve site r # cs" "truthy r \<or> r = JUndefined"
      "fst (makeDom h hs defs ?m r) = Inr doc"
  proof -
    have u: "truthy r \<or> isUndefined r"
      using that(2) by auto
    show ?thesis
      using settled_stays [of "Fulfilled (PDoc doc)" h hs defs cs] u that(3)
      by (cases "makeDom h hs defs ?m r") (simp add: pc that(1))
  qed
  have threw: "fst (page_call h hs defs cfg options) = Rejected (thrown err)"
    if "ready_of h f options = Resolve InReady r # cs" "truthy r \<or> r = JUndefined"
      "fst (makeDom h hs defs ?m r) = Inl err"
  proof -
    have u: "truthy r \<or> isUndefined r"
      using that(2) by auto
    show ?thesis
      using u that(3)
      by (cases "makeDom h hs defs ?m r") (simp add: pc that(1))
  qed
  have null: "fst (page_call h hs defs cfg options) = Fulfilled (PVal JNull)"
    if "ready_of h f options = Resolve site r # cs" "\<not> truthy r" "r \<noteq> JUndefined"
  proof -
    have u: "\<not> (truthy r \<or> isUndefined r)"
      using that(2,3) by (cases r) simp_all
    show ?thesis
      using settled_stays [of "Fulfilled (PVal JNull)" h hs defs cs] u
      by (simp add: pc that(1))
  qed
  have rej: "fst (page_call h hs defs cfg options) = Rejected e"
    if "ready_of h f options = Reject e # cs"
    using settled_stays [of "Rejected e" h hs defs cs] by (simp add: pc that)
  show ?thesis
    using first none built threw null rej by blast
qed

lemmas evs = page_call_def page_by_url_def page_by_template_def makeDom_def prepareDom_def
  lodash_defaults_def appendStyle_def addHandlers_def setHandlers_def addDefaultHandlers_def
  removeDefaultHandlers_def setDefaultHandlers_def handlers_def addListeners_def setListeners_def
  defaultsDeep_def page_defaults_def assignMergeValue_def obj_get_def example_host_def doc0_def
  addEventListener_def Ajax_get_def ajax_def ajax_request_def assign_def ajax_defaults_def xhr_object_def
  thrown_def tvml_doc_def

text \<open>
  C1. The claim does not hold of the code for a configuration with a \<open>ready\<close> function and
  no template. \<open>ready\<close> is called with the options of the call and calls \<open>resolve\<close> with
  \<open>undefined\<close> while it runs. The default template gives the empty string, whose document
  has neither a head nor a \<open>document\<close> element, so \<open>appendStyle\<close> throws inside
  \<open>makeDom\<close>; the exception leaves the executor, and the promise is rejected with the
  TypeError instead of being resolved to a built document.
\<close>

theorem ready_resolve_throws:
  "fst (page_call example_host handlers page_defaults [(''ready'', JFun (UserFn 9))] JUndefined)
     = Rejected (thrown TypeError)
   \<and> fst (snd (page_call example_host handlers page_defaults [(''ready'', JFun (UserFn 9))] JUndefined))
     = [CallReady (UserFn 9) JUndefined]
   \<and> ready_of example_host (UserFn 9) JUndefined = [Resolve InReady JUndefined]"
  by (simp add: evs Let_def)

text \<open>
  The same \<open>ready\<close> with a template that is parsed to a TVML document fulfils the promise
  with the document, which has the style in its head and the configuration as its page;
  \<open>resolve(null)\<close> fulfils with \<open>null\<close>, and \<open>reject('x')\<close> rejects with \<open>x\<close>.
\<close>

lemma ready_resolve_builds:
  "\<exists>d. fst (page_call example_host handlers page_defaults
            [(''ready'', JFun (UserFn 9)), (''template'', JStr ''<document></document>'')] JUndefined)
          = Fulfilled (PDoc d)
        \<and> doc_head d = Some ''<style></style>''
        \<and> doc_page d = Some (defaultsDeep
            [(''ready'', JFun (UserFn 9)), (''template'', JStr ''<document></document>'')] page_defaults)"
  by (simp add: evs Let_def)

lemma ready_null_and_reject:
  "fst (page_call example_host handlers page_defaults [(''ready'', JFun (UserFn 7))] JUndefined)
     = Fulfilled (PVal JNull)
   \<and> fst (page_call example_host handlers page_defaults [(''ready'', JFun (UserFn 8))] JUndefined)
     = Rejected (JStr ''x'')"
  using ready_branch [where cfg = "[(''ready'', JFun (UserFn 7))]" and f = "UserFn 7"
      and h = example_host and hs = handlers and defs = page_defaults and options = JUndefined
      and r = JNull and cs = "[]" and site = InReady]
    ready_branch [where cfg = "[(''ready'', JFun (UserFn 8))]" and f = "UserFn 8"
      and h = example_host and hs = handlers and defs = page_defaults and options = JUndefined
      and e = "JStr ''x''" and cs = "[]"]
  by (simp add: obj_get_def example_host_def)

lemma page_call_unready:
  "\<not> isFunction (obj_get (defaultsDeep cfg defs) ''ready'') \<Longrightarrow>
     page_call h hs defs cfg options =
       (if truthy (obj_get (defaultsDeep cfg defs) ''url'')
        then page_by_url h hs defs (defaultsDeep cfg defs)
        else page_by_template h hs defs (defaultsDeep cfg defs))"
  by (cases "obj_get (defaultsDeep cfg defs) ''ready''") (simp_all add: page_call_def)

text \<open>
  C2 (as amended). A configuration with no \<open>ready\<close> function and a truthy \<open>url\<close> whose
  request fails with the object \<open>x\<close>: when \<open>onError\<close> is a function it is called with
  \<open>x.response\<close> and \<open>x\<close>, and the promise of the page is neither fulfilled nor rejected;
  when \<open>onError\<close> is no function the promise is rejected with \<open>x\<close> itself. The three
  properties are read after the merge of the defaults; with the defaults of page.ts they
  are those of the configuration.
\<close>

theorem transport_failure:
  assumes "\<not> isFunction (obj_get (defaultsDeep cfg defs) ''ready'')"
    and "truthy (obj_get (defaultsDeep cfg defs) ''url'')"
    and "Ajax_get (xhr_send h) (obj_get (defaultsDeep cfg defs) ''url'')
           (obj_get (defaultsDeep cfg defs) ''options'') = Rejected x"
  shows "(obj_get (defaultsDeep cfg defs) ''onError'' = JFun g \<longrightarrow>
            page_call h hs defs cfg options =
              (Pending,
               [AjaxGet (obj_get (defaultsDeep cfg defs) ''url'') (obj_get (defaultsDeep cfg defs) ''options''),
                CallOnError g (get_prop x ''response'') x],
               defaultsDeep cfg defs))
       \<and> (\<not> isFunction (obj_get (defaultsDeep cfg defs) ''onError'') \<longrightarrow>
            page_call h hs defs cfg options =
              (Rejected x,
               [AjaxGet (obj_get (defaultsDeep cfg defs) ''url'') (obj_get (defaultsDeep cfg defs) ''options'')],
               defaultsDeep cfg defs))
       \<and> obj_get (defaultsDeep cfg page_defaults) ''ready'' = obj_get cfg ''ready''
       \<and> obj_get (defaultsDeep cfg page_defaults) ''url'' = obj_get cfg ''url''
       \<and> obj_get (defaultsDeep cfg page_defaults) ''onError'' = obj_get cfg ''onError''"
proof -
  let ?m = "defaultsDeep cfg defs"
  have pc: "page_call h hs defs cfg options = page_by_url h hs defs ?m"
    using assms(1,2) by (simp add: page_call_unready)
  have handled: "page_by_url h hs defs ?m =
      (Pending, [AjaxGet (obj_get ?m ''url'') (obj_get ?m ''options''),
                 CallOnError g (get_prop x ''response'') x], ?m)"
    if "obj_get ?m ''onError'' = JFun g"
    using assms(3) that by (simp add: page_by_url_def)
  have raw: "page_by_url h hs defs ?m =
      (Rejected x, [AjaxGet (obj_get ?m ''url'') (obj_get ?m ''options'')], ?m)"
    if "\<not> isFunction (obj_get ?m ''onError'')"
    using assms(3) that by (cases "obj_get ?m ''onError''") (simp_all add: page_by_url_def)
  show ?thesis
    using pc handled raw by (simp add: merged_other_fields)
qed

lemma makeDom_host:
  "makeDom (h\<lparr>ready_calls := rc, xhr_send := s\<rparr>) hs defs cfg r = makeDom h hs defs cfg r"
  by (simp add: makeDom_def cong: jsval.case_cong)

lemma makeDom_host_send:
  "makeDom (h\<lparr>xhr_send := s\<rparr>) hs defs cfg r = makeDom h hs defs cfg r"
  by (simp add: makeDom_def cong: jsval.case_cong)

lemma ready_of_host_send: "ready_of (h\<lparr>xhr_send := s\<rparr>) f options = ready_of h f options"
  by (cases f) simp_all

lemma continue_ready_host_send:
  "continue_ready (h\<lparr>xhr_send := s\<rparr>) hs defs cs st = continue_ready h hs defs cs st"
proof (induction cs arbitrary: st)
  case Nil
  show ?case by simp
next
  case (Cons c cs)
  obtain p es cfg where st: "st = (p, es, cfg)" by (cases st)
  show ?case
    by (cases c)
      (simp_all add: st makeDom_host_send Cons.IH split: prod.splits sum.splits call_site.splits)
qed

lemma page_by_url_calls:
  "\<exists>es. fst (snd (page_by_url h hs defs cfg)) = AjaxGet (obj_get cfg ''url'') (obj_get cfg ''options'') # es
        \<and> list_all (\<lambda>e. \<not> is_ready_call e) es"
proof (cases "Ajax_get (xhr_send h) (obj_get cfg ''url'') (obj_get cfg ''options'')")
  case Pending
  then show ?thesis by (simp add: page_by_url_def)
next
  case (Fulfilled xhr)
  let ?r = "case xhr of PVal x \<Rightarrow> get_prop x ''response'' | PDoc d \<Rightarrow> JUndefined"
  have "list_all (\<lambda>e. \<not> is_ready_call e) (snd (snd (makeDom h hs defs cfg ?r)))"
    using makeDom_calls [of h hs defs cfg ?r] by (simp add: list_all_iff)
  then show ?thesis
    using Fulfilled
    by (cases "makeDom h hs defs cfg ?r") (simp add: page_by_url_def Let_def split: sum.splits)
next
  case (Rejected x)
  then show ?thesis
    by (cases "obj_get cfg ''onError''") (simp_all add: page_by_url_def)
qed

text \<open>
  Every call of a page function takes exactly one of three branches, decided on the
  merged configuration in this order. \<open>ready\<close> is a function: \<open>ready\<close> and its
  continuations decide, no request is made, and the result is the same whatever the
  transport would answer. Otherwise \<open>url\<close> is truthy: the request is made first, and
  \<open>ready\<close> is not called. Otherwise \<open>makeDom\<close> runs on the configuration with no
  response, in the executor: the promise is fulfilled at once with the document when there
  is one and rejected at once with the exception when \<open>makeDom\<close> throws; neither \<open>ready\<close>
  nor the transport is called, and the result does not depend on them. With the defaults
  of page.ts, \<open>ready\<close> and \<open>url\<close> of the merged configuration are those of the
  configuration.
\<close>

lemma strategy_branches:
  "(obj_get (defaultsDeep cfg defs) ''ready'' = JFun f \<longrightarrow>
      page_call h hs defs cfg options =
        continue_ready h hs defs (ready_of h f options)
          (Pending, [CallReady f options], defaultsDeep cfg defs)
      \<and> \<not> list_ex is_transport_call (fst (snd (page_call h hs defs cfg options)))
      \<and> page_call (h\<lparr>xhr_send := s\<rparr>) hs defs cfg options = page_call h hs defs cfg options)
   \<and> (\<not> isFunction (obj_get (defaultsDeep cfg defs) ''ready'')
        \<and> truthy (obj_get (defaultsDeep cfg defs) ''url'') \<longrightarrow>
      page_call h hs defs cfg options = page_by_url h hs defs (defaultsDeep cfg defs)
      \<and> hd (fst (snd (page_call h hs defs cfg options)))
          = AjaxGet (obj_get (defaultsDeep cfg defs) ''url'') (obj_get (defaultsDeep cfg defs) ''options'')
      \<and> \<not> list_ex is_ready_call (fst (snd (page_call h hs defs cfg options))))
   \<and> (\<not> isFunction (obj_get (defaultsDeep cfg defs) ''ready'')
        \<and> \<not> truthy (obj_get (defaultsDeep cfg defs) ''url'') \<longrightarrow>
      fst (page_call h hs defs cfg options)
        = (case fst (makeDom h hs defs (defaultsDeep cfg defs) JUndefined) of
             Inr doc \<Rightarrow> Fulfilled (PDoc doc)
           | Inl err \<Rightarrow> Rejected (thrown err))
      \<and> \<not> list_ex is_ready_call (fst (snd (page_call h hs defs cfg options)))
      \<and> \<not> list_ex is_transport_call (fst (snd (page_call h hs defs cfg options)))
      \<and> page_call (h\<lparr>ready_calls := rc, xhr_send := s\<rparr>) hs defs cfg options
          = page_call h hs defs cfg options)
   \<and> obj_get (defaultsDeep cfg page_defaults) ''ready'' = obj_get cfg ''ready''
   \<and> obj_get (defaultsDeep cfg page_defaults) ''url'' = obj_get cfg ''url''"
proof -
  let ?m = "defaultsDeep cfg defs"
  have ready: "page_call h hs defs cfg options =
        continue_ready h hs defs (ready_of h f options) (Pending, [CallReady f options], ?m)
      \<and> \<not> list_ex is_transport_call (fst (snd (page_call h hs defs cfg options)))
      \<and> page_call (h\<lparr>xhr_send := s\<rparr>) hs defs cfg options = page_call h hs defs cfg options"
    if r: "obj_get ?m ''ready'' = JFun f"
  proof -
    have pc: "page_call h' hs defs cfg options =
        continue_ready h' hs defs (ready_of h' f options) (Pending, [CallReady f options], ?m)" for h'
      by (simp add: page_call_def r)
    obtain es' where "fst (snd (page_call h hs defs cfg options)) = [CallReady f options] @ es'"
      and "list_all (\<lambda>e. \<not> is_ready_call e \<and> \<not> is_transport_call e) es'"
      using continue_ready_calls [of h hs defs "ready_of h f options" Pending "[CallReady f options]" ?m]
      by (auto simp: pc)
    then have "\<not> list_ex is_transport_call (fst (snd (page_call h hs defs cfg options)))"
      by (auto simp: list_ex_iff list_all_iff)
    then show ?thesis
      using pc [of h] pc [of "h\<lparr>xhr_send := s\<rparr>"]
      by (simp add: continue_ready_host_send ready_of_host_send)
  qed
  have url: "page_call h hs defs cfg options = page_by_url h hs defs ?m
      \<and> hd (fst (snd (page_call h hs defs cfg options)))
          = AjaxGet (obj_get ?m ''url'') (obj_get ?m ''options'')
      \<and> \<not> list_ex is_ready_call (fst (snd (page_call h hs defs cfg options)))"
    if "\<not> isFunction (obj_get ?m ''ready'')" "truthy (obj_get ?m ''url'')"
  proof -
    have pc: "page_call h hs defs cfg options = page_by_url h hs defs ?m"
      using that by (simp add: page_call_unready)
    obtain es where "fst (snd (page_by_url h hs defs ?m)) = AjaxGet (obj_get ?m ''url'') (obj_get ?m ''options'') # es"
      and "list_all (\<lambda>e. \<not> is_ready_call e) es"
      using page_by_url_calls by blast
    then show ?thesis
      by (auto simp: pc list_ex_iff list_all_iff)
  qed
  have none: "fst (page_call h hs defs cfg options)
        = (case fst (makeDom h hs defs ?m JUndefined) of
             Inr doc \<Rightarrow> Fulfilled (PDoc doc)
           | Inl err \<Rightarrow> Rejected (thrown err))
      \<and> \<not> list_ex is_ready_call (fst (snd (page_call h hs defs cfg options)))
      \<and> \<not> list_ex is_transport_call (fst (snd (page_call h hs defs cfg options)))
      \<and> page_call (h\<lparr>ready_calls := rc, xhr_send := s\<rparr>) hs defs cfg options
          = page_call h hs defs cfg options"
    if "\<not> isFunction (obj_get ?m ''ready'')" "\<not> truthy (obj_get ?m ''url'')"
  proof -
    have pc: "page_call h' hs defs cfg options = page_by_template h' hs defs ?m" for h'
      using that by (simp add: page_call_unready)
    have c: "list_all (\<lambda>e. \<not> is_ready_call e \<and> \<not> is_transport_call e)
        (snd (snd (makeDom h hs defs ?m JUndefined)))"
      by (rule makeDom_calls)
    have "page_by_template (h\<lparr>ready_calls := rc, xhr_send := s\<rparr>) hs defs ?m = page_by_template h hs defs ?m"
      by (simp add: page_by_template_def makeDom_host)
    then show ?thesis
      using c
      by (cases "makeDom h hs defs ?m JUndefined")
        (auto simp: pc page_by_template_def list_ex_iff list_all_iff split: sum.splits)
  qed
  have own: "obj_get (defaultsDeep cfg page_defaults) ''ready'' = obj_get cfg ''ready''"
    "obj_get (defaultsDeep cfg page_defaults) ''url'' = obj_get cfg ''url''"
    by (simp_all add: merged_other_fields)
  show ?thesis
    using ready url none own by blast
qed

text \<open>
  C6. The claim does not hold of the code for the empty configuration. Neither \<open>ready\<close>
  nor \<open>url\<close> is present, so the last branch runs \<open>makeDom\<close> on the configuration alone, at
  once and with no call of \<open>ready\<close> or of the transport, as the claim says. But the
  default template gives the empty string, whose document has neither a head nor a
  \<open>document\<close> element, so \<open>appendStyle\<close> throws inside \<open>makeDom\<close> and the promise is
  rejected with the TypeError instead of being resolved to a document.
\<close>

theorem no_strategy_throws:
  "page_call example_host handlers page_defaults [] JUndefined
     = (Rejected (thrown TypeError), [], defaultsDeep [] page_defaults)
   \<and> obj_get (defaultsDeep [] page_defaults) ''ready'' = JUndefined
   \<and> obj_get (defaultsDeep [] page_defaults) ''url'' = JUndefined"
  by (simp add: evs Let_def)

lemma obj_get_Nil: "obj_get [] k = JUndefined"
  by (simp add: obj_get_def)

lemma obj_get_Cons: "obj_get ((k', v) # ps) k = (if k = k' then v else obj_get ps k)"
  by (simp add: obj_get_def)

lemma merged_default_options:
  assumes "obj_get cfg ''options'' = JUndefined"
  shows "obj_get (defaultsDeep cfg page_defaults) ''options'' = JObj [(''responseType'', JStr ''json'')]"
proof -
  have "merge_props [] [(''responseType'', JStr ''json'')] = [(''responseType'', JStr ''json'')]"
    by (simp add: assignMergeValue_def obj_get_def)
  then show ?thesis
    using assms by (simp add: merged_page_defaults page_defaults_lookup del: merge_props.simps)
qed

text \<open>
  The three branches at concrete configurations: a template of its own and nothing else,
  a \<open>url\<close>, and a \<open>ready\<close> function beside a \<open>url\<close>.
\<close>

lemma strategy_examples:
  "(\<exists>d. page_call example_host handlers page_defaults
            [(''template'', JStr ''<document></document>'')] JUndefined
          = (Fulfilled (PDoc d), [],
             defaultsDeep [(''template'', JStr ''<document></document>'')] page_defaults))
   \<and> hd (fst (snd (page_call example_host handlers page_defaults [(''url'', JStr ''/x'')] JUndefined)))
     = AjaxGet (JStr ''/x'') (JObj [(''responseType'', JStr ''json'')])
   \<and> page_call (example_host\<lparr>xhr_send := (\<lambda>m u opts. None)\<rparr>) handlers page_defaults
        [(''ready'', JFun (UserFn 8)), (''url'', JStr ''/x'')] JUndefined
     = page_call example_host handlers page_defaults
        [(''ready'', JFun (UserFn 8)), (''url'', JStr ''/x'')] JUndefined"
proof -
  note o = merged_default_options
  have a: "\<exists>d. page_call example_host handlers page_defaults
            [(''template'', JStr ''<document></document>'')] JUndefined
          = (Fulfilled (PDoc d), [],
             defaultsDeep [(''template'', JStr ''<document></document>'')] page_defaults)"
    by (simp add: evs Let_def)
  have b: "hd (fst (snd (page_call example_host handlers page_defaults [(''url'', JStr ''/x'')] JUndefined)))
     = AjaxGet (JStr ''/x'') (JObj [(''responseType'', JStr ''json'')])"
    using strategy_branches [where cfg = "[(''url'', JStr ''/x'')]" and defs = page_defaults
        and h = example_host and hs = handlers and options = JUndefined]
    by (simp (no_asm_use) add: merged_other_fields o obj_get_Nil obj_get_Cons) blast
  have c: "page_call (example_host\<lparr>xhr_send := (\<lambda>m u opts. None)\<rparr>) handlers page_defaults
        [(''ready'', JFun (UserFn 8)), (''url'', JStr ''/x'')] JUndefined
     = page_call example_host handlers page_defaults
        [(''ready'', JFun (UserFn 8)), (''url'', JStr ''/x'')] JUndefined"
    using strategy_branches [where cfg = "[(''ready'', JFun (UserFn 8)), (''url'', JStr ''/x'')]"
        and defs = page_defaults and h = example_host and hs = handlers and options = JUndefined
        and f = "UserFn 8" and s = "\<lambda>m u opts. None"]
    by (simp add: merged_other_fields obj_get_Nil obj_get_Cons)
  show ?thesis
    using a b c by simp
qed

lemma example_request_fails:
  "Ajax_get (xhr_send example_host) (JStr ''/x'') (JObj [(''responseType'', JStr ''json'')])
     = Rejected (xhr_object 500 (JStr ''down''))"
  by (simp add: Ajax_get_def ajax_def ajax_request_def assign_def ajax_defaults_def obj_get_def
      example_host_def)

theorem transport_failure_witness:
  "page_call example_host handlers page_defaults [(''url'', JStr ''/x'')] JUndefined
     = (Rejected (xhr_object 500 (JStr ''down'')),
        [AjaxGet (JStr ''/x'') (JObj [(''responseType'', JStr ''json'')])],
        defaultsDeep [(''url'', JStr ''/x'')] page_defaults)
   \<and> page_call example_host handlers page_defaults
        [(''url'', JStr ''/x''), (''onError'', JFun (UserFn 3))] JUndefined
     = (Pending,
        [AjaxGet (JStr ''/x'') (JObj [(''responseType'', JStr ''json'')]),
         CallOnError (UserFn 3) (JStr ''down'') (xhr_object 500 (JStr ''down''))],
        defaultsDeep [(''url'', JStr ''/x''), (''onError'', JFun (UserFn 3))] page_defaults)"
proof -
  note o = merged_default_options
  show ?thesis
    using transport_failure [where cfg = "[(''url'', JStr ''/x'')]" and defs = page_defaults
        and h = example_host and hs = handlers and options = JUndefined
        and x = "xhr_object 500 (JStr ''down'')" and g = "UserFn 3"]
      transport_failure [where cfg = "[(''url'', JStr ''/x''), (''onError'', JFun (UserFn 3))]"
        and defs = page_defaults
        and h = example_host and hs = handlers and options = JUndefined
        and x = "xhr_object 500 (JStr ''down'')" and g = "UserFn 3"]
      example_request_fails
    by (simp add: merged_other_fields o obj_get_Nil obj_get_Cons xhr_object_def)
qed

text \<open>
  C2 as stated fails: with \<open>onError\<close> declared, the failure callback calls neither
  \<open>resolve\<close> nor \<open>reject\<close>, so the promise of the page stays pending; it is not
  fulfilled with \<open>undefined\<close>.
\<close>

theorem transport_failure_pending_counterexample:
  "fst (page_call example_host handlers page_defaults
          [(''url'', JStr ''/x''), (''onError'', JFun (UserFn 3))] JUndefined) = Pending
   \<and> fst (page_call example_host handlers page_defaults
          [(''url'', JStr ''/x''), (''onError'', JFun (UserFn 3))] JUndefined)
       \<noteq> Fulfilled (PVal JUndefined)"
  by (simp add: evs Let_def)

end
